theory Spec2Isabelle
  imports Complex_Main
begin

section \<open>UMFPACK: symbolic analysis and release of the Numeric object\<close>

text \<open>
  A shallow embedding of \<^verbatim>\<open>UMFPACK/Source/umfpack_qsymbolic.c\<close> and
  \<^verbatim>\<open>UMFPACK/Source/umfpack_free_numeric.c\<close> (the real, non-COMPLEX variant).
  C arrays are lists, the C type \<^verbatim>\<open>Int\<close> is \<open>int\<close> (the source rejects a problem whose
  workspace size does not fit an \<^verbatim>\<open>Int\<close>, so no wrap-around is written out), a
  \<^verbatim>\<open>double\<close> is a \<open>real\<close>, and a pointer that may be \<^verbatim>\<open>NULL\<close> is an \<open>option\<close>.
\<close>

subsection \<open>Memory blocks and \<^verbatim>\<open>UMFPACK_free_numeric\<close>\<close>

type_synonym addr = nat

text \<open>A pointer: \<open>None\<close> is \<^verbatim>\<open>NULL\<close>, \<open>Some a\<close> is the block at address \<open>a\<close>.\<close>

type_synonym ptr = "addr option"

text \<open>The thirteen pointers that \<^verbatim>\<open>UMFPACK_free_numeric\<close> reads from a \<^verbatim>\<open>NumericType\<close>.\<close>

record NumericType =
  D :: ptr
  Rperm :: ptr
  Cperm :: ptr
  Lpos :: ptr
  Lilen :: ptr
  Lip :: ptr
  Upos :: ptr
  Uilen :: ptr
  Uip :: ptr
  Rs :: ptr
  Upattern :: ptr
  Memory :: ptr

text \<open>
  The store: the set of blocks that are allocated, the \<^verbatim>\<open>NumericType\<close> object held at an
  address, and the pointer held in a handle cell (a \<^verbatim>\<open>void *\<close> variable of the caller).
\<close>

record store =
  allocated :: "addr set"
  numeric_at :: "addr \<Rightarrow> NumericType"
  handle_at :: "addr \<Rightarrow> ptr"

text \<open>
  \<^verbatim>\<open>UMF_free (p)\<close> (\<^verbatim>\<open>umf_free.c\<close>, called by the source on pointers that may be
  \<^verbatim>\<open>NULL\<close>, such as \<^verbatim>\<open>Numeric->Rs\<close>): releases the block \<open>p\<close> points to, if any.
\<close>

definition UMF_free :: "ptr \<Rightarrow> store \<Rightarrow> store" where
  "UMF_free p s = (case p of None \<Rightarrow> s | Some a \<Rightarrow> s\<lparr>allocated := allocated s - {a}\<rparr>)"

text \<open>The pointers of a Numeric object, in the order the source frees them.\<close>

definition numeric_members :: "NumericType \<Rightarrow> ptr list" where
  "numeric_members N =
     [D N, Rperm N, Cperm N, Lpos N, Lilen N, Lip N, Upos N, Uilen N, Uip N,
      Rs N, Upattern N, Memory N]"

text \<open>
  \<^verbatim>\<open>UMFPACK_free_numeric (void **NumericHandle)\<close>: returns at once on a null handle or a
  handle that holds \<^verbatim>\<open>NULL\<close>; otherwise frees the members, then the object, and stores
  \<^verbatim>\<open>NULL\<close> in the handle.
\<close>

definition UMFPACK_free_numeric :: "addr option \<Rightarrow> store \<Rightarrow> store" where
  "UMFPACK_free_numeric NumericHandle s =
     (case NumericHandle of
        None \<Rightarrow> s
      | Some h \<Rightarrow>
          (case handle_at s h of
             None \<Rightarrow> s
           | Some a \<Rightarrow>
               (let Numeric = numeric_at s a;
                    s1 = fold UMF_free (numeric_members Numeric) s;
                    s2 = UMF_free (Some a) s1
                in s2\<lparr>handle_at := (handle_at s2)(h := None)\<rparr>)))"

text \<open>The blocks a Numeric object at address \<open>a\<close> consists of.\<close>

definition numeric_blocks :: "store \<Rightarrow> addr \<Rightarrow> addr set" where
  "numeric_blocks s a = insert a {b. Some b \<in> set (numeric_members (numeric_at s a))}"

subsection \<open>Constants and macros of the headers\<close>

text \<open>The sentinel \<^verbatim>\<open>EMPTY\<close> of the source is \<open>-1\<close>.\<close>

definition EMPTY :: int where
  "EMPTY = -1"

text \<open>The status codes \<^verbatim>\<open>symbolic_analysis\<close> returns.\<close>

datatype status =
    UMFPACK_OK
  | UMFPACK_ERROR_argument_missing
  | UMFPACK_ERROR_n_nonpositive
  | UMFPACK_ERROR_invalid_matrix
  | UMFPACK_ERROR_invalid_permutation
  | UMFPACK_ERROR_out_of_memory
  | UMFPACK_ERROR_ordering_failed
  | UMFPACK_ERROR_internal_error

text \<open>
  The source includes \<^verbatim>\<open>umfpack.h\<close> (through \<^verbatim>\<open>umf_internal.h\<close>), which is not among the
  sources. The enumeration values, the default settings and the macro
  \<^verbatim>\<open>UMFPACK_DENSE_DEGREE_THRESHOLD (alpha, n)\<close> it defines are parameters of the model.
\<close>

record umfpack_h =
  UMFPACK_ORDERING_CHOLMOD :: int
  UMFPACK_ORDERING_AMD :: int
  UMFPACK_ORDERING_GIVEN :: int
  UMFPACK_ORDERING_METIS :: int
  UMFPACK_ORDERING_BEST :: int
  UMFPACK_ORDERING_NONE :: int
  UMFPACK_ORDERING_USER :: int
  UMFPACK_ORDERING_METIS_GUARD :: int
  UMFPACK_STRATEGY_AUTO :: int
  UMFPACK_STRATEGY_UNSYMMETRIC :: int
  UMFPACK_STRATEGY_OBSOLETE :: int
  UMFPACK_STRATEGY_SYMMETRIC :: int
  UMFPACK_DEFAULT_ORDERING :: int
  UMFPACK_DEFAULT_STRATEGY :: int
  UMFPACK_DEFAULT_DENSE_ROW :: real
  UMFPACK_DEFAULT_BLOCK_SIZE :: int
  UMFPACK_DEFAULT_FIXQ :: real
  UMFPACK_DEFAULT_STRATEGY_THRESH_SYM :: real
  UMFPACK_DEFAULT_STRATEGY_THRESH_NNZDIAG :: real
  UMFPACK_DENSE_DEGREE_THRESHOLD :: "real \<Rightarrow> int \<Rightarrow> int"

text \<open>
  What the code takes for granted of the enumerations: the ordering values lie in the
  range \<open>0 .. UMFPACK_ORDERING_METIS_GUARD\<close> that the source tests, the strategy values in
  \<open>UMFPACK_STRATEGY_AUTO .. UMFPACK_STRATEGY_SYMMETRIC\<close>, the values of one enumeration are
  pairwise different, and the default ordering is neither "given" nor "user".
\<close>

definition orderings :: "umfpack_h \<Rightarrow> int list" where
  "orderings K =
     [UMFPACK_ORDERING_CHOLMOD K, UMFPACK_ORDERING_AMD K, UMFPACK_ORDERING_GIVEN K,
      UMFPACK_ORDERING_METIS K, UMFPACK_ORDERING_BEST K, UMFPACK_ORDERING_NONE K,
      UMFPACK_ORDERING_USER K, UMFPACK_ORDERING_METIS_GUARD K]"

definition strategies :: "umfpack_h \<Rightarrow> int list" where
  "strategies K =
     [UMFPACK_STRATEGY_AUTO K, UMFPACK_STRATEGY_UNSYMMETRIC K, UMFPACK_STRATEGY_OBSOLETE K,
      UMFPACK_STRATEGY_SYMMETRIC K]"

definition umfpack_h_ok :: "umfpack_h \<Rightarrow> bool" where
  "umfpack_h_ok K =
     (distinct (orderings K) \<and> distinct (strategies K)
      \<and> list_all (\<lambda>v. 0 \<le> v \<and> v \<le> UMFPACK_ORDERING_METIS_GUARD K) (orderings K)
      \<and> list_all (\<lambda>v. UMFPACK_STRATEGY_AUTO K \<le> v \<and> v \<le> UMFPACK_STRATEGY_SYMMETRIC K)
           (strategies K)
      \<and> UMFPACK_DEFAULT_ORDERING K = UMFPACK_ORDERING_AMD K
      \<and> UMFPACK_DEFAULT_STRATEGY K = UMFPACK_STRATEGY_AUTO K)"

text \<open>
  The macros of \<^verbatim>\<open>umf_internal.h\<close> (not among the sources either) that the resource
  simulation uses, as parameters: \<^verbatim>\<open>UNITS (type, n)\<close> and \<^verbatim>\<open>DUNITS (type, n)\<close> for the
  types the source names, \<^verbatim>\<open>TUPLES\<close>, \<^verbatim>\<open>GET_ELEMENT_SIZE\<close>, \<^verbatim>\<open>DGET_ELEMENT_SIZE\<close>, the
  bound \<^verbatim>\<open>MAXNB\<close> on the block size, \<^verbatim>\<open>UMF_COLAMD_RECOMMENDED (nz, n_row, n_col)\<close> (of
  \<^verbatim>\<open>umf_colamd.h\<close>), and the outcome of the test
  \<^verbatim>\<open>INT_OVERFLOW (dClen * sizeof (Int))\<close> for given \<open>nz\<close>, \<open>n_row\<close> and \<open>n_col\<close>.
  With them, what the types \<^verbatim>\<open>Int\<close> and \<^verbatim>\<open>double\<close> of the machine do: the largest \<^verbatim>\<open>Int\<close>,
  \<^verbatim>\<open>Int_MAX\<close>; the value that the conversion of a \<^verbatim>\<open>double\<close> outside the range of \<^verbatim>\<open>Int\<close>
  leaves in the \<^verbatim>\<open>Int\<close> (C does not define it); and the rounding of a real number to a
  \<^verbatim>\<open>double\<close>, which every arithmetic operation on fractional values ends with.
\<close>

record umf_internal_h =
  MAXNB :: int
  UNITS_Int :: "int \<Rightarrow> int"
  UNITS_Entry :: "int \<Rightarrow> int"
  UNITS_Int_ptr :: "int \<Rightarrow> int"
  UNITS_Entry_ptr :: "int \<Rightarrow> int"
  UNITS_Tuple :: "int \<Rightarrow> int"
  DUNITS_Int :: "real \<Rightarrow> real"
  DUNITS_Entry :: "real \<Rightarrow> real"
  DUNITS_Int_ptr :: "real \<Rightarrow> real"
  DUNITS_Entry_ptr :: "real \<Rightarrow> real"
  DUNITS_Tuple :: "real \<Rightarrow> real"
  TUPLES :: "int \<Rightarrow> int"
  GET_ELEMENT_SIZE :: "int \<Rightarrow> int \<Rightarrow> int"
  DGET_ELEMENT_SIZE :: "real \<Rightarrow> real \<Rightarrow> real"
  UMF_COLAMD_RECOMMENDED :: "int \<Rightarrow> int \<Rightarrow> int \<Rightarrow> int"
  Clen_INT_OVERFLOW :: "int \<Rightarrow> int \<Rightarrow> int \<Rightarrow> bool"
  Int_MAX :: int
  Int_out_of_range :: "real \<Rightarrow> int"
  double_round :: "real \<Rightarrow> real"

text \<open>
  The macro \<^verbatim>\<open>ELEMENT_SIZE (r, c)\<close> of the source: the size of an element in Units,
  including tuples.
\<close>

definition ELEMENT_SIZE :: "umf_internal_h \<Rightarrow> real \<Rightarrow> real \<Rightarrow> real" where
  "ELEMENT_SIZE U r c = DGET_ELEMENT_SIZE U r c + 1 + (r + c) * real_of_int (UNITS_Tuple U 1)"

text \<open>
  What the simulation takes for granted of the size macros: a size is never negative for
  a count that is not negative.
\<close>

definition umf_internal_h_ok :: "umf_internal_h \<Rightarrow> bool" where
  "umf_internal_h_ok U =
     ((\<forall>n\<ge>0. 0 \<le> UNITS_Int U n \<and> 0 \<le> UNITS_Entry U n \<and> 0 \<le> UNITS_Int_ptr U n
            \<and> 0 \<le> UNITS_Entry_ptr U n \<and> 0 \<le> UNITS_Tuple U n)
      \<and> (\<forall>x\<ge>0. 0 \<le> DUNITS_Int U x \<and> 0 \<le> DUNITS_Entry U x \<and> 0 \<le> DUNITS_Int_ptr U x
            \<and> 0 \<le> DUNITS_Entry_ptr U x \<and> 0 \<le> DUNITS_Tuple U x)
      \<and> (\<forall>t. 0 \<le> TUPLES U t)
      \<and> (\<forall>r\<ge>0. \<forall>c\<ge>0. 0 \<le> GET_ELEMENT_SIZE U r c)
      \<and> (\<forall>r\<ge>0. \<forall>c\<ge>0. 0 \<le> DGET_ELEMENT_SIZE U r c))"

subsection \<open>The \<^verbatim>\<open>Control\<close> array\<close>

text \<open>
  The entries of \<^verbatim>\<open>Control\<close> that the modelled code reads, under the names of their
  indices. An entry is \<open>None\<close> when it holds NaN. (The entries for the dense-column
  knob, singletons, AMD density, aggressive absorption and the print level only reach
  the ordering collaborators.)
\<close>

record control =
  UMFPACK_DENSE_ROW :: "real option"
  UMFPACK_BLOCK_SIZE :: "real option"
  UMFPACK_STRATEGY :: "real option"
  UMFPACK_FIXQ :: "real option"
  UMFPACK_ORDERING :: "real option"
  UMFPACK_STRATEGY_THRESH_SYM :: "real option"
  UMFPACK_STRATEGY_THRESH_NNZDIAG :: "real option"

text \<open>
  \<^verbatim>\<open>GET_CONTROL (i, default)\<close>: the default when \<^verbatim>\<open>Control\<close> is \<^verbatim>\<open>NULL\<close> or the entry is
  NaN, the entry otherwise.
\<close>

definition GET_CONTROL :: "control option \<Rightarrow> (control \<Rightarrow> real option) \<Rightarrow> real \<Rightarrow> real" where
  "GET_CONTROL Control i dflt =
     (case Control of
        None \<Rightarrow> dflt
      | Some C \<Rightarrow> (case i C of None \<Rightarrow> dflt | Some v \<Rightarrow> v))"

text \<open>The conversion of a \<^verbatim>\<open>double\<close> to an \<^verbatim>\<open>Int\<close> truncates toward zero.\<close>

definition Int_of_double :: "real \<Rightarrow> int" where
  "Int_of_double x = (if 0 \<le> x then \<lfloor>x\<rfloor> else \<lceil>x\<rceil>)"

subsection \<open>Control settings of \<^verbatim>\<open>symbolic_analysis\<close>\<close>

text \<open>
  "get the ordering_option": an unrecognized ordering is punted to the default; without
  \<^verbatim>\<open>Quser\<close> the ordering cannot be "given", nor "user" without an ordering function; with
  \<^verbatim>\<open>Quser\<close> it is always "given".
\<close>

definition get_ordering_option :: "umfpack_h \<Rightarrow> control option \<Rightarrow> bool \<Rightarrow> bool \<Rightarrow> int" where
  "get_ordering_option K Control Quser_is_NULL user_ordering_is_NULL =
     (let ordering_option =
            Int_of_double (GET_CONTROL Control UMFPACK_ORDERING
              (real_of_int (UMFPACK_DEFAULT_ORDERING K)));
          ordering_option =
            (if ordering_option < 0 \<or> ordering_option > UMFPACK_ORDERING_METIS_GUARD K
             then UMFPACK_DEFAULT_ORDERING K else ordering_option)
      in if Quser_is_NULL then
           (if ordering_option = UMFPACK_ORDERING_GIVEN K
               \<or> (ordering_option = UMFPACK_ORDERING_USER K \<and> user_ordering_is_NULL)
            then UMFPACK_ORDERING_NONE K else ordering_option)
         else UMFPACK_ORDERING_GIVEN K)"

text \<open>
  The conversion of a \<^verbatim>\<open>double\<close> to the \<^verbatim>\<open>Int\<close> of the machine: the truncation when it
  is in the range of \<^verbatim>\<open>Int\<close>, and what the machine leaves otherwise.
\<close>

definition Int_of_double_machine :: "umf_internal_h \<Rightarrow> real \<Rightarrow> int" where
  "Int_of_double_machine U x =
     (if - Int_MAX U - 1 \<le> Int_of_double x \<and> Int_of_double x \<le> Int_MAX U
      then Int_of_double x else Int_out_of_range U x)"

text \<open>The block size: at least 2, at most \<^verbatim>\<open>MAXNB\<close>, and even.\<close>

definition get_nb :: "umfpack_h \<Rightarrow> umf_internal_h \<Rightarrow> control option \<Rightarrow> int" where
  "get_nb K U Control =
     (let nb = Int_of_double_machine U (GET_CONTROL Control UMFPACK_BLOCK_SIZE
                 (real_of_int (UMFPACK_DEFAULT_BLOCK_SIZE K)));
          nb = max 2 nb;
          nb = min nb (MAXNB U)
      in if nb mod 2 = 1 then nb + 1 else nb)"

text \<open>
  "get the requested strategy": a rectangular matrix forces the unsymmetric strategy, an
  unrecognized strategy becomes auto, and with \<^verbatim>\<open>Quser\<close> only the symmetric and the
  unsymmetric strategies are available.
\<close>

definition get_strategy :: "umfpack_h \<Rightarrow> control option \<Rightarrow> int \<Rightarrow> int \<Rightarrow> bool \<Rightarrow> int" where
  "get_strategy K Control n_row n_col Quser_is_NULL =
     (let strategy = Int_of_double (GET_CONTROL Control UMFPACK_STRATEGY
                       (real_of_int (UMFPACK_DEFAULT_STRATEGY K)));
          strategy = (if n_row \<noteq> n_col then UMFPACK_STRATEGY_UNSYMMETRIC K else strategy);
          strategy =
            (if strategy < UMFPACK_STRATEGY_AUTO K \<or> strategy > UMFPACK_STRATEGY_SYMMETRIC K
                \<or> strategy = UMFPACK_STRATEGY_OBSOLETE K
             then UMFPACK_STRATEGY_AUTO K else strategy)
      in if \<not> Quser_is_NULL \<and> strategy \<noteq> UMFPACK_STRATEGY_SYMMETRIC K
         then UMFPACK_STRATEGY_UNSYMMETRIC K else strategy)"

text \<open>
  Modelled from the spec: \<^verbatim>\<open>UMF_is_permutation (P, W, n, r)\<close>, whose file
  \<^verbatim>\<open>umf_is_permutation.c\<close> is not among the sources. The spec has the call fail with
  \<open>invalid_permutation\<close> "when a user-supplied Quser is not a permutation of 0..n_col-1":
  the first \<open>r\<close> entries of \<open>P\<close> lie in \<open>0..n-1\<close> and no two of them are equal (for
  \<open>r = n\<close>, exactly the permutations of \<open>0..n-1\<close>).
\<close>

definition UMF_is_permutation :: "int list \<Rightarrow> int \<Rightarrow> int \<Rightarrow> bool" where
  "UMF_is_permutation P n r =
     (nat r \<le> length P \<and> list_all (\<lambda>i. 0 \<le> i \<and> i < n) (take (nat r) P)
      \<and> distinct (take (nat r) P))"

subsection \<open>\<^verbatim>\<open>inverse_permutation\<close>\<close>

text \<open>
  "Check a permutation, and return its inverse": \<open>None\<close> is the return value
  \<^verbatim>\<open>FALSE\<close>, \<open>Some Pinv\<close> is \<^verbatim>\<open>TRUE\<close> with the array \<^verbatim>\<open>Pinv\<close> as the loop left it.
\<close>

definition inverse_permutation_step :: "int list \<Rightarrow> int \<Rightarrow> nat \<Rightarrow> int list option \<Rightarrow> int list option" where
  "inverse_permutation_step P n k acc =
     (case acc of
        None \<Rightarrow> None
      | Some Pinv \<Rightarrow>
          (let i = P ! k
           in if i < 0 \<or> i \<ge> n \<or> Pinv ! nat i \<noteq> EMPTY then None
              else Some (Pinv[nat i := int k])))"

definition inverse_permutation :: "int list \<Rightarrow> int list \<Rightarrow> int \<Rightarrow> int list option" where
  "inverse_permutation P Pinv n =
     fold (inverse_permutation_step P n) [0..<nat n]
       (Some (fold (\<lambda>i Pinv. Pinv[i := EMPTY]) [0..<nat n] Pinv))"

subsection \<open>\<^verbatim>\<open>prune_singletons\<close>\<close>

text \<open>
  "Create the submatrix after removing the n1 singletons": returns \<^verbatim>\<open>nzdiag\<close> and the
  arrays \<^verbatim>\<open>Si\<close> and \<^verbatim>\<open>Sp\<close> it fills. \<^verbatim>\<open>Ax\<close> is \<open>None\<close> when the caller passes
  \<^verbatim>\<open>NULL\<close>; \<^verbatim>\<open>SCALAR_IS_NONZERO (x)\<close> is \<open>x \<noteq> 0\<close>.
\<close>

definition prune_entry ::
  "int list \<Rightarrow> real list option \<Rightarrow> int list \<Rightarrow> int \<Rightarrow> int \<Rightarrow> nat
   \<Rightarrow> int \<times> int list \<times> int \<Rightarrow> int \<times> int list \<times> int" where
  "prune_entry Ai Ax InvRperm1 n1 newcol p = (\<lambda>(pp, Si, nzdiag).
     (let row = Ai ! p;
          newrow = InvRperm1 ! nat row - n1
      in if newrow \<ge> 0 then
           (pp + 1, Si[nat pp := newrow],
            (case Ax of
               None \<Rightarrow> nzdiag
             | Some ax \<Rightarrow> if newrow = newcol \<and> ax ! p \<noteq> 0 then nzdiag + 1 else nzdiag))
         else (pp, Si, nzdiag)))"

definition prune_column ::
  "int \<Rightarrow> int list \<Rightarrow> int list \<Rightarrow> real list option \<Rightarrow> int list \<Rightarrow> int list \<Rightarrow> nat
   \<Rightarrow> int \<times> int list \<times> int list \<times> int \<Rightarrow> int \<times> int list \<times> int list \<times> int" where
  "prune_column n1 Ap Ai Ax Cperm1 InvRperm1 k = (\<lambda>(pp, Si, Sp, nzdiag).
     (let oldcol = Cperm1 ! k;
          newcol = int k - n1;
          Sp = Sp[nat newcol := pp];
          (pp, Si, nzdiag) =
            fold (prune_entry Ai Ax InvRperm1 n1 newcol)
              [nat (Ap ! nat oldcol) ..< nat (Ap ! nat (oldcol + 1))] (pp, Si, nzdiag)
      in (pp, Si, Sp, nzdiag)))"

definition prune_singletons ::
  "int \<Rightarrow> int \<Rightarrow> int list \<Rightarrow> int list \<Rightarrow> real list option \<Rightarrow> int list \<Rightarrow> int list
   \<Rightarrow> int list \<Rightarrow> int list \<Rightarrow> int \<times> int list \<times> int list" where
  "prune_singletons n1 n_col Ap Ai Ax Cperm1 InvRperm1 Si Sp =
     (let (pp, Si, Sp, nzdiag) =
            fold (prune_column n1 Ap Ai Ax Cperm1 InvRperm1) [nat n1 ..< nat n_col]
              (0, Si, Sp, 0)
      in (nzdiag, Si, Sp[nat (n_col - n1) := pp]))"

subsection \<open>\<^verbatim>\<open>combine_ordering\<close>\<close>

text \<open>
  "combine the singleton ordering with Qinv": the singleton columns first, then each
  other column \<open>Cperm1 [k]\<close> at the place \<open>Qinv [k - n1] + n1\<close>, then the empty columns.
  The argument \<open>Cperm_init\<close> is the array as the call finds it.
\<close>

definition combine_ordering ::
  "int \<Rightarrow> int \<Rightarrow> int \<Rightarrow> int list \<Rightarrow> int list \<Rightarrow> int list \<Rightarrow> int list" where
  "combine_ordering n1 nempty_col n_col Cperm_init Cperm1 Qinv =
     (let Cperm_init = fold (\<lambda>k C. C[k := Cperm1 ! k]) [0..<nat n1] Cperm_init;
          Cperm_init =
            fold (\<lambda>k C.
                   (let oldcol = Cperm1 ! k;
                        newcol = int k - n1;
                        knew = Qinv ! nat newcol + n1
                    in C[nat knew := oldcol]))
              [nat n1 ..< nat (n_col - nempty_col)] Cperm_init
      in fold (\<lambda>k C. C[k := Cperm1 ! k]) [nat (n_col - nempty_col) ..< nat n_col] Cperm_init)"

subsection \<open>The stages of \<^verbatim>\<open>symbolic_analysis\<close> after the ordering\<close>

text \<open>
  "P = order that rows will be used in UMF_analyze": the rows of \<open>S\<close> in the order the
  columns first touch them, completed by the rows that no column touches. Returns the
  number \<open>k\<close> of rows the columns touch, from which the source recomputes
  \<^verbatim>\<open>nempty_row = n_row - n1 - k\<close>, and the order \<open>P\<close>.
\<close>

definition first_touch_entry :: "int list \<Rightarrow> nat \<Rightarrow> int \<times> int list \<times> int list \<Rightarrow> int \<times> int list \<times> int list" where
  "first_touch_entry Si p = (\<lambda>(k, W, P).
     (let row = Si ! p
      in if W ! nat row = 0 then (k + 1, W[nat row := 1], P[nat k := row]) else (k, W, P)))"

definition first_touch_rows ::
  "int \<Rightarrow> int \<Rightarrow> int \<Rightarrow> int list \<Rightarrow> int list \<Rightarrow> int list \<Rightarrow> int list \<Rightarrow> int \<times> int list" where
  "first_touch_rows n_row n_col n1 Sp Si W P =
     (let W = fold (\<lambda>row W. W[row := 0]) [0..<nat (n_row - n1)] W;
          (k, W, P) =
            fold (\<lambda>col. fold (first_touch_entry Si) [nat (Sp ! col) ..< nat (Sp ! (col + 1))])
              [0..<nat (n_col - n1)] (0, W, P);
          (k', P) =
            (if k < n_row - n1 then
               fold (\<lambda>row (k', P). if W ! row = 0 then (k' + 1, P[nat k' := int row]) else (k', P))
                 [0..<nat (n_row - n1)] (k, P)
             else (k, P))
      in (k, P))"

text \<open>
  "combine the input permutation and UMF_analyze's permutation": the column etree
  post-ordering \<open>Cperm2\<close> is applied to the columns after the singletons, through the
  work array \<open>W\<close>.
\<close>

definition apply_postorder :: "int \<Rightarrow> int \<Rightarrow> int \<Rightarrow> int list \<Rightarrow> int list \<Rightarrow> int list \<Rightarrow> int list" where
  "apply_postorder n_col n1 nempty_col Cperm2 W Cperm_init =
     (let W = fold (\<lambda>k W. W[k := Cperm_init ! nat (n1 + Cperm2 ! k)])
                [0..<nat (n_col - n1 - nempty_col)] W
      in fold (\<lambda>k C. C[nat (n1 + int k) := W ! k]) [0..<nat (n_col - n1 - nempty_col)]
           Cperm_init)"

text \<open>"determine the size of the Symbolic object": the number of chains.\<close>

definition count_chains :: "int \<Rightarrow> int list \<Rightarrow> int" where
  "count_chains nfr Fr_parent =
     fold (\<lambda>i nchains. if Fr_parent ! i \<noteq> int i + 1 then nchains + 1 else nchains)
       [0..<nat nfr] 0"

text \<open>
  "assign rows to fronts", when \<^verbatim>\<open>UMF_analyze\<close> was called ("Computing Front_1strow from
  scratch"): every row starts in the dummy front \<open>nfr\<close>, the singleton pivot rows go to
  the front \<^verbatim>\<open>EMPTY\<close>, and each front takes the rows of its pivot columns that no front
  has taken.
\<close>

definition claim_row :: "int \<Rightarrow> int list \<Rightarrow> nat \<Rightarrow> nat \<Rightarrow> int list \<times> int \<Rightarrow> int list \<times> int" where
  "claim_row nfr Ai i p = (\<lambda>(InFront, f1rows).
     (let row = Ai ! p
      in if InFront ! nat row = nfr then (InFront[nat row := int i], f1rows + 1)
         else (InFront, f1rows)))"

definition claim_column ::
  "int \<Rightarrow> int list \<Rightarrow> int list \<Rightarrow> int list \<Rightarrow> nat \<Rightarrow> nat
   \<Rightarrow> int \<times> int list \<times> int \<Rightarrow> int \<times> int list \<times> int" where
  "claim_column nfr Ap Ai Cperm_init i kk = (\<lambda>(newj, InFront, f1rows).
     (let j = Cperm_init ! nat newj;
          (InFront, f1rows) =
            fold (claim_row nfr Ai i) [nat (Ap ! nat j) ..< nat (Ap ! nat (j + 1))]
              (InFront, f1rows)
      in (newj + 1, InFront, f1rows)))"

definition claim_front ::
  "int \<Rightarrow> int list \<Rightarrow> int list \<Rightarrow> int list \<Rightarrow> int list \<Rightarrow> nat
   \<Rightarrow> int \<times> int list \<times> int list \<Rightarrow> int \<times> int list \<times> int list" where
  "claim_front nfr Ap Ai Cperm_init Fr_npivcol i = (\<lambda>(newj, InFront, Front_1strow).
     (let fpivcol = Fr_npivcol ! i;
          (newj, InFront, f1rows) =
            fold (claim_column nfr Ap Ai Cperm_init i) [0..<nat fpivcol] (newj, InFront, 0)
      in (newj, InFront, Front_1strow[i := f1rows])))"

definition assign_rows_analyze ::
  "int \<Rightarrow> int \<Rightarrow> int \<Rightarrow> int list \<Rightarrow> int list \<Rightarrow> int list \<Rightarrow> int list \<Rightarrow> int list
   \<Rightarrow> int list \<Rightarrow> int list \<Rightarrow> int list \<times> int list" where
  "assign_rows_analyze n_row n1 nfr Ap Ai Rperm1 Cperm_init Fr_npivcol InFront Front_1strow =
     (let InFront = fold (\<lambda>row I. I[row := nfr]) [0..<nat n_row] InFront;
          InFront = fold (\<lambda>k I. I[nat (Rperm1 ! k) := EMPTY]) [0..<nat n1] InFront;
          (newj, InFront, Front_1strow) =
            fold (claim_front nfr Ap Ai Cperm_init Fr_npivcol) [0..<nat nfr]
              (n1, InFront, Front_1strow)
      in (InFront, Front_1strow))"

text \<open>
  "assign rows to fronts", when COLAMD has computed \<^verbatim>\<open>InFront\<close> ("Computing Front_1strow
  from colamd's InFront"): \<^verbatim>\<open>InFront\<close> is permuted through \<^verbatim>\<open>Rperm1\<close>, with \<^verbatim>\<open>Ci\<close> as
  workspace, and the rows of each front are counted.
\<close>

definition assign_rows_colamd ::
  "int \<Rightarrow> int \<Rightarrow> int \<Rightarrow> int \<Rightarrow> int list \<Rightarrow> int list \<Rightarrow> int list \<Rightarrow> int list
   \<Rightarrow> int list \<times> int list \<times> int list" where
  "assign_rows_colamd n_row n1 nempty_row nfr Rperm1 Ci InFront Front_1strow =
     (let Front_1strow = fold (\<lambda>i F. F[i := 0]) [0..<nat (nfr + 1)] Front_1strow;
          Ci = fold (\<lambda>k Ci. Ci[nat (Rperm1 ! k) := EMPTY]) [0..<nat n1] Ci;
          (Front_1strow, Ci) =
            fold (\<lambda>k (F, Ci).
                   (let row = Rperm1 ! k;
                        i = InFront ! nat (int k - n1);
                        F = (if i \<noteq> EMPTY then F[nat i := F ! nat i + 1] else F)
                    in (F, Ci[nat row := i])))
              [nat n1 ..< nat (n_row - nempty_row)] (Front_1strow, Ci);
          Ci = fold (\<lambda>k Ci. Ci[nat (Rperm1 ! k) := nfr])
                 [max (nat n1) (nat (n_row - nempty_row)) ..< nat n_row] Ci;
          InFront = fold (\<lambda>row I. I[row := Ci ! row]) [0..<nat n_row] InFront
      in (InFront, Front_1strow, Ci))"

text \<open>
  "copy front information into Symbolic object": returns \<^verbatim>\<open>Front_npivcol\<close> and
  \<^verbatim>\<open>Front_parent\<close>; the empty columns go to the dummy front \<open>nfr\<close>.
\<close>

definition copy_fronts ::
  "int \<Rightarrow> int \<Rightarrow> int \<Rightarrow> int list \<Rightarrow> int list \<Rightarrow> int list \<Rightarrow> int list \<Rightarrow> int list \<times> int list" where
  "copy_fronts n_col n1 nfr Fr_npivcol Fr_parent Front_npivcol Front_parent =
     (let (k, Front_npivcol, Front_parent) =
            fold (\<lambda>i (k, N, P).
                   (let fpivcol = Fr_npivcol ! i
                    in (k + fpivcol, N[i := fpivcol], P[i := Fr_parent ! i])))
              [0..<nat nfr] (n1, Front_npivcol, Front_parent)
      in (Front_npivcol[nat nfr := n_col - k], Front_parent[nat nfr := EMPTY]))"

text \<open>
  "find initial row permutation": the singleton pivot rows first; the tallies in
  \<^verbatim>\<open>Front_1strow\<close> become the first row of each front; then each row that is in a front
  is written at the next free place of its front (\<open>F1\<close> is held in \<^verbatim>\<open>Ci\<close>).
\<close>

definition first_rows :: "int \<Rightarrow> int \<Rightarrow> int list \<Rightarrow> int list" where
  "first_rows n1 nfr Front_1strow =
     (let (k, Front_1strow) =
            fold (\<lambda>i (k, F). (let f1rows = F ! i in (k + f1rows, F[i := k])))
              [0..<nat nfr] (n1, Front_1strow)
      in Front_1strow[nat nfr := k])"

definition place_row :: "int list \<Rightarrow> nat \<Rightarrow> int list \<times> int list \<Rightarrow> int list \<times> int list" where
  "place_row InFront row = (\<lambda>(F1, Rperm_init).
     (let i = InFront ! row
      in if i \<noteq> EMPTY then
           (let newrow = F1 ! nat i
            in (F1[nat i := newrow + 1], Rperm_init[nat newrow := int row]))
         else (F1, Rperm_init)))"

definition find_Rperm_init ::
  "int \<Rightarrow> int \<Rightarrow> int \<Rightarrow> int list \<Rightarrow> int list \<Rightarrow> int list \<Rightarrow> int list \<Rightarrow> int list
   \<Rightarrow> int list \<times> int list \<times> int list" where
  "find_Rperm_init n_row n1 nfr Rperm1 InFront Front_1strow Ci Rperm_init =
     (let Rperm_init = fold (\<lambda>k R. R[k := Rperm1 ! k]) [0..<nat n1] Rperm_init;
          Front_1strow = first_rows n1 nfr Front_1strow;
          F1 = fold (\<lambda>i F1. F1[i := Front_1strow ! i]) [0..<nat (nfr + 1)] Ci;
          (F1, Rperm_init) = fold (place_row InFront) [0..<nat n_row] (F1, Rperm_init)
      in (Rperm_init[nat n_row := EMPTY], Front_1strow, F1))"

text \<open>A loop whose body may fail to give a result.\<close>

fun ofold :: "('a \<Rightarrow> 's \<Rightarrow> 's option) \<Rightarrow> 'a list \<Rightarrow> 's \<Rightarrow> 's option" where
  "ofold f [] s = Some s"
| "ofold f (x # xs) s = (case f x s of None \<Rightarrow> None | Some s' \<Rightarrow> ofold f xs s')"

text \<open>
  "find the diagonal map": \<^verbatim>\<open>Ci\<close> is made the inverse of \<^verbatim>\<open>Rperm_init\<close>, and
  \<^verbatim>\<open>Diagonal_map [newcol]\<close> is the new row of the old diagonal entry of the column
  \<^verbatim>\<open>Cperm_init [newcol]\<close>. Both loops run to \<open>nn = MAX (n_row, n_col)\<close>, and the source
  only asserts that the matrix is square: for a rectangular matrix (which a ParU
  caller can pass) \<^verbatim>\<open>Rperm_init [n_row]\<close> is \<^verbatim>\<open>EMPTY\<close> and \<^verbatim>\<open>Ci [EMPTY]\<close> lies outside
  the array. C gives no meaning to an access outside an array; the result is then
  \<open>None\<close>.
\<close>

definition invert_row :: "int list \<Rightarrow> nat \<Rightarrow> int list \<Rightarrow> int list option" where
  "invert_row Rperm_init newrow Ci =
     (if newrow < length Rperm_init then
        (let oldrow = Rperm_init ! newrow
         in if 0 \<le> oldrow \<and> nat oldrow < length Ci then Some (Ci[nat oldrow := int newrow])
            else None)
      else None)"

definition map_diagonal :: "int list \<Rightarrow> int list \<Rightarrow> nat \<Rightarrow> int list \<Rightarrow> int list option" where
  "map_diagonal Cperm_init Ci newcol Diagonal_map =
     (if newcol < length Cperm_init then
        (let oldcol = Cperm_init ! newcol;
             oldrow = oldcol
         in if 0 \<le> oldrow \<and> nat oldrow < length Ci \<and> newcol < length Diagonal_map
            then (let newrow = Ci ! nat oldrow in Some (Diagonal_map[newcol := newrow]))
            else None)
      else None)"

definition find_Diagonal_map ::
  "int \<Rightarrow> int list \<Rightarrow> int list \<Rightarrow> int list \<Rightarrow> int list \<Rightarrow> (int list \<times> int list) option" where
  "find_Diagonal_map nn Rperm_init Cperm_init Ci Diagonal_map =
     (case ofold (invert_row Rperm_init) [0..<nat nn] Ci of
        None \<Rightarrow> None
      | Some Ci \<Rightarrow>
          (case ofold (map_diagonal Cperm_init Ci) [0..<nat nn] Diagonal_map of
             None \<Rightarrow> None
           | Some Diagonal_map \<Rightarrow> Some (Diagonal_map, Ci)))"

text \<open>
  "find the frontal matrix chains and max frontal matrix sizes". The variables of the
  loop (under their names in the source, with the prefix \<open>c_\<close>): the number of chains so
  far, the three chain arrays, the running maxima of the current chain and the maxima
  over all chains.
\<close>

record chains =
  c_nchains :: int
  c_Chain_start :: "int list"
  c_Chain_maxrows :: "int list"
  c_Chain_maxcols :: "int list"
  c_maxrows :: int
  c_maxcols :: int
  c_maxnrows :: int
  c_maxncols :: int

definition chain_front :: "int list \<Rightarrow> int list \<Rightarrow> int list \<Rightarrow> nat \<Rightarrow> chains \<Rightarrow> chains" where
  "chain_front Fr_nrows Fr_ncols Front_parent i c =
     (let fallrows = Fr_nrows ! i;
          fallcols = Fr_ncols ! i;
          parent = Front_parent ! i;
          c = c\<lparr>c_maxrows := max (c_maxrows c) fallrows, c_maxcols := max (c_maxcols c) fallcols\<rparr>
      in if parent \<noteq> int i + 1 then
           (let c = (if c_maxrows c mod 2 = 0 then c\<lparr>c_maxrows := c_maxrows c + 1\<rparr> else c);
                c = c\<lparr>c_Chain_maxrows := (c_Chain_maxrows c)[nat (c_nchains c) := c_maxrows c],
                      c_Chain_maxcols := (c_Chain_maxcols c)[nat (c_nchains c) := c_maxcols c],
                      c_maxnrows := max (c_maxnrows c) (c_maxrows c),
                      c_maxncols := max (c_maxncols c) (c_maxcols c)\<rparr>;
                c = c\<lparr>c_nchains := c_nchains c + 1\<rparr>
            in c\<lparr>c_Chain_start := (c_Chain_start c)[nat (c_nchains c) := int i + 1],
                 c_maxrows := 1, c_maxcols := 1\<rparr>)
         else c)"

definition find_chains ::
  "int \<Rightarrow> int list \<Rightarrow> int list \<Rightarrow> int list \<Rightarrow> int list \<Rightarrow> int list \<Rightarrow> int list \<Rightarrow> chains" where
  "find_chains nfr Fr_nrows Fr_ncols Front_parent Chain_start Chain_maxrows Chain_maxcols =
     (let c = fold (chain_front Fr_nrows Fr_ncols Front_parent) [0..<nat nfr]
                \<lparr>c_nchains = 0, c_Chain_start = Chain_start[0 := 0],
                 c_Chain_maxrows = Chain_maxrows, c_Chain_maxcols = Chain_maxcols,
                 c_maxrows = 1, c_maxcols = 1, c_maxnrows = 1, c_maxncols = 1\<rparr>
      in c\<lparr>c_Chain_maxrows := (c_Chain_maxrows c)[nat (c_nchains c) := 0],
           c_Chain_maxcols := (c_Chain_maxcols c)[nat (c_nchains c) := 0]\<rparr>)"

text \<open>
  "find the initial element sizes", when there are dense rows: the element of a column
  holds the entries of the column that are not in a dense row (\<^verbatim>\<open>Ci\<close> is made the
  inverse of \<^verbatim>\<open>Rperm_init\<close>).
\<close>

definition find_Esize ::
  "int \<Rightarrow> int \<Rightarrow> int \<Rightarrow> int \<Rightarrow> int \<Rightarrow> int list \<Rightarrow> int list \<Rightarrow> int list \<Rightarrow> int list
   \<Rightarrow> int list \<Rightarrow> int list \<Rightarrow> int list \<Rightarrow> int list \<Rightarrow> int list \<times> int list" where
  "find_Esize n_row n_col n1 nempty_col dense_row_threshold Ap Ai Cperm_init Rperm_init Cdeg Rdeg
       Ci Esize =
     (let Ci = fold (\<lambda>newrow Ci.
                      (let oldrow = Rperm_init ! newrow in Ci[nat oldrow := int newrow]))
                 [0..<nat n_row] Ci;
          Esize =
            fold (\<lambda>col Es.
                   (let oldcol = Cperm_init ! col;
                        esize =
                          fold (\<lambda>p esize.
                                 (let oldrow = Ai ! p;
                                      newrow = Ci ! nat oldrow
                                  in if newrow \<ge> n1 \<and> Rdeg ! nat oldrow > dense_row_threshold
                                     then esize - 1 else esize))
                            [nat (Ap ! nat oldcol) ..< nat (Ap ! nat (oldcol + 1))]
                            (Cdeg ! nat oldcol)
                    in Es[nat (int col - n1) := esize]))
              [nat n1 ..< nat (n_col - nempty_col)] Esize
      in (Esize, Ci))"

text \<open>
  "permute Cdeg and Rdeg according to initial column and row permutation", through the
  workspace \<^verbatim>\<open>Ci\<close>.
\<close>

definition permute_degrees :: "int \<Rightarrow> int list \<Rightarrow> int list \<Rightarrow> int list \<Rightarrow> int list \<times> int list" where
  "permute_degrees n perm deg Ci =
     (let Ci = fold (\<lambda>k Ci. Ci[k := deg ! nat (perm ! k)]) [0..<nat n] Ci
      in (fold (\<lambda>k dg. dg[k := Ci ! k]) [0..<nat n] deg, Ci))"

subsection \<open>The resource simulation\<close>

text \<open>
  The counters of the simulation: head and tail usage of \<^verbatim>\<open>Numeric->Memory\<close> in Units, as
  \<^verbatim>\<open>Int\<close> and as \<^verbatim>\<open>double\<close>, the bounds on the nonzeros of L and U, and the peak usage.
  The \<^verbatim>\<open>double\<close> counters hold whole numbers (of Units and of entries), which a
  \<^verbatim>\<open>double\<close> holds exactly up to \<open>2^53\<close>; they are kept as real numbers, without rounding.
\<close>

record usage =
  head_usage :: int
  tail_usage :: int
  dhead_usage :: real
  dtail_usage :: real
  dlnz :: real
  dunz :: real
  dmax_usage :: real

text \<open>\<^verbatim>\<open>ceil\<close> of a \<^verbatim>\<open>double\<close>.\<close>

definition ceil :: "real \<Rightarrow> real" where
  "ceil x = real_of_int \<lceil>x\<rceil>"

text \<open>"LU factors for singletons, at the head of memory".\<close>

definition singleton_factors :: "umf_internal_h \<Rightarrow> int list \<Rightarrow> int list \<Rightarrow> nat \<Rightarrow> usage \<Rightarrow> usage" where
  "singleton_factors U Cdeg Rdeg k u =
     (let lnz = Cdeg ! k - 1;
          unz = Rdeg ! k - 1
      in u\<lparr>dlnz := dlnz u + real_of_int lnz,
           dunz := dunz u + real_of_int unz,
           head_usage := head_usage u + (UNITS_Int U lnz + UNITS_Entry U lnz
                           + UNITS_Int U unz + UNITS_Entry U unz),
           dhead_usage := dhead_usage u + (DUNITS_Int U (real_of_int lnz)
                           + DUNITS_Entry U (real_of_int lnz)
                           + DUNITS_Int U (real_of_int unz) + DUNITS_Entry U (real_of_int unz))\<rparr>)"

text \<open>"column elements" and "dense row elements": the initial elements at the tail.\<close>

definition column_element :: "umf_internal_h \<Rightarrow> int \<Rightarrow> int list \<Rightarrow> int list option \<Rightarrow> nat \<Rightarrow> usage \<Rightarrow> usage" where
  "column_element U n1 Cdeg Esize k u =
     (let esize = (case Esize of Some Es \<Rightarrow> Es ! nat (int k - n1) | None \<Rightarrow> Cdeg ! k)
      in if esize > 0 then
           u\<lparr>tail_usage := tail_usage u + (GET_ELEMENT_SIZE U esize 1 + 1),
             dtail_usage := dtail_usage u + (DGET_ELEMENT_SIZE U (real_of_int esize) 1 + 1)\<rparr>
         else u)"

definition dense_row_element :: "umf_internal_h \<Rightarrow> int \<Rightarrow> int list \<Rightarrow> nat \<Rightarrow> usage \<Rightarrow> usage" where
  "dense_row_element U dense_row_threshold Rdeg k u =
     (let rdeg = Rdeg ! k
      in if rdeg > dense_row_threshold then
           u\<lparr>tail_usage := tail_usage u + (GET_ELEMENT_SIZE U 1 rdeg + 1),
             dtail_usage := dtail_usage u + real_of_int (GET_ELEMENT_SIZE U 1 rdeg + 1)\<rparr>
         else u)"

text \<open>"compute the tuple lengths": one tuple list of length \<open>tlen\<close> at the tail.\<close>

definition tuple_list :: "umf_internal_h \<Rightarrow> int \<Rightarrow> usage \<Rightarrow> usage" where
  "tuple_list U tlen u =
     u\<lparr>tail_usage := tail_usage u + (1 + UNITS_Tuple U (TUPLES U tlen)),
       dtail_usage := dtail_usage u + (1 + DUNITS_Tuple U (real_of_int (TUPLES U tlen)))\<rparr>"

definition row_tuples :: "umf_internal_h \<Rightarrow> int \<Rightarrow> int list \<Rightarrow> bool \<Rightarrow> nat \<Rightarrow> usage \<Rightarrow> usage" where
  "row_tuples U dense_row_threshold Rdeg dense row u =
     (let rdeg = Rdeg ! row;
          tlen = (if dense \<and> rdeg > dense_row_threshold then 1 else rdeg)
      in tuple_list U tlen u)"

definition column_tuples :: "umf_internal_h \<Rightarrow> int \<Rightarrow> int list \<Rightarrow> int list \<Rightarrow> nat \<Rightarrow> usage \<Rightarrow> usage" where
  "column_tuples U n1 Cdeg Es col u =
     (let esize = Es ! nat (int col - n1);
          tlen = (if esize > 0 then 1 else 0) + (Cdeg ! col - esize)
      in tuple_list U tlen u)"

text \<open>
  "simulate UMF_kernel_init": from the head and tail markers and the \<^verbatim>\<open>Rpi\<close> and
  \<^verbatim>\<open>Rpx\<close> workspace up to the tuple lists. \<^verbatim>\<open>Cdeg\<close> and \<^verbatim>\<open>Rdeg\<close> are the permuted degrees.
\<close>

definition simulate_kernel_init ::
  "umf_internal_h \<Rightarrow> int \<Rightarrow> int \<Rightarrow> int \<Rightarrow> int \<Rightarrow> int \<Rightarrow> int \<Rightarrow> int \<Rightarrow> int list \<Rightarrow> int list
   \<Rightarrow> int list option \<Rightarrow> usage" where
  "simulate_kernel_init U n_row n_col n1 nempty_row nempty_col n_inner dense_row_threshold
       Cdeg Rdeg Esize =
     (let u = \<lparr>head_usage = 1, tail_usage = 2, dhead_usage = 1, dtail_usage = 2,
               dlnz = real_of_int n_inner, dunz = real_of_int n_inner, dmax_usage = 0\<rparr>;
          u = u\<lparr>tail_usage := tail_usage u
                   + (UNITS_Int_ptr U (n_row + 1) + UNITS_Entry_ptr U (n_row + 1) + 2),
                 dtail_usage := dtail_usage u
                   + (DUNITS_Int_ptr U (real_of_int (n_row + 1))
                      + DUNITS_Entry_ptr U (real_of_int (n_row + 1)) + 2)\<rparr>;
          u = fold (singleton_factors U Cdeg Rdeg) [0..<nat n1] u;
          u = fold (column_element U n1 Cdeg Esize) [nat n1 ..< nat (n_col - nempty_col)] u
      in case Esize of
           Some Es \<Rightarrow>
             (let u = fold (dense_row_element U dense_row_threshold Rdeg)
                        [nat n1 ..< nat (n_row - nempty_row)] u;
                  u = fold (row_tuples U dense_row_threshold Rdeg True) [nat n1 ..< nat n_row] u;
                  u = fold (column_tuples U n1 Cdeg Es) [nat n1 ..< nat (n_col - nempty_col)] u
              in fold (\<lambda>col. tuple_list U 0)
                   [max (nat n1) (nat (n_col - nempty_col)) ..< nat n_col] u)
         | None \<Rightarrow>
             (let u = fold (row_tuples U dense_row_threshold Rdeg False) [nat n1 ..< nat n_row] u
              in fold (\<lambda>col. tuple_list U 1) [nat n1 ..< nat n_col] u))"

text \<open>
  The initial usage is recorded and the \<^verbatim>\<open>Rpi\<close> and \<^verbatim>\<open>Rpx\<close> workspace is freed. Returns
  \<^verbatim>\<open>Symbolic->num_mem_init_usage\<close>, \<^verbatim>\<open>Symbolic->dnum_mem_init_usage\<close> and the counters.
\<close>

definition record_init_usage :: "umf_internal_h \<Rightarrow> int \<Rightarrow> usage \<Rightarrow> int \<times> real \<times> usage" where
  "record_init_usage U n_row u =
     (let num_mem_init_usage = head_usage u + tail_usage u;
          u = u\<lparr>dmax_usage := dhead_usage u + dtail_usage u\<rparr>;
          u = u\<lparr>dmax_usage := max (real_of_int num_mem_init_usage) (ceil (dmax_usage u))\<rparr>;
          dnum_mem_init_usage = dmax_usage u;
          u = u\<lparr>tail_usage := tail_usage u
                   - (UNITS_Int_ptr U (n_row + 1) + UNITS_Entry_ptr U (n_row + 1)),
                 dtail_usage := dtail_usage u
                   - (DUNITS_Int_ptr U (real_of_int (n_row + 1))
                      + DUNITS_Entry_ptr U (real_of_int (n_row + 1)))\<rparr>
      in (num_mem_init_usage, dnum_mem_init_usage, u))"

text \<open>
  "assemble all children of front i in column etree": the loop over the link list that
  starts at \<open>child\<close>. The loop of the source has no bound of its own; here it runs for at
  most \<open>fuel\<close> steps, and \<open>None\<close> says that it did not reach \<^verbatim>\<open>EMPTY\<close> within them.
\<close>

fun assemble_children ::
  "umf_internal_h \<Rightarrow> int list \<Rightarrow> int list \<Rightarrow> int list \<Rightarrow> int list \<Rightarrow> nat \<Rightarrow> int \<Rightarrow> real
   \<Rightarrow> real option" where
  "assemble_children U Front_npivcol Fr_nrows Fr_ncols Link 0 child dtail =
     (if child = EMPTY then Some dtail else None)"
| "assemble_children U Front_npivcol Fr_nrows Fr_ncols Link (Suc fuel) child dtail =
     (if child = EMPTY then Some dtail
      else
        (let cp = min (Front_npivcol ! nat child) (Fr_nrows ! nat child);
             cr = Fr_nrows ! nat child - cp;
             cc = Fr_ncols ! nat child - cp
         in assemble_children U Front_npivcol Fr_nrows Fr_ncols Link fuel (Link ! nat child)
              (dtail - ELEMENT_SIZE U (real_of_int cr) (real_of_int cc))))"

text \<open>One front of a chain: its children are assembled, it is factorized, and its
  contribution block becomes an element in the link list of its parent.\<close>

definition simulate_front ::
  "umf_internal_h \<Rightarrow> int \<Rightarrow> int list \<Rightarrow> int list \<Rightarrow> int list \<Rightarrow> int list \<Rightarrow> nat
   \<Rightarrow> int list \<times> usage \<Rightarrow> (int list \<times> usage) option" where
  "simulate_front U nfr Front_npivcol Fr_nrows Fr_ncols Front_parent i = (\<lambda>(Link, u).
     (let fpivcol = Front_npivcol ! i;
          fallrows = Fr_nrows ! i;
          fallcols = Fr_ncols ! i;
          parent = Front_parent ! i;
          fpiv = min fpivcol fallrows;
          f = real_of_int fpiv;
          r = real_of_int (fallrows - fpiv);
          c = real_of_int (fallcols - fpiv)
      in case assemble_children U Front_npivcol Fr_nrows Fr_ncols Link (nat nfr) (Link ! i)
                (dtail_usage u) of
           None \<Rightarrow> None
         | Some dtail \<Rightarrow>
             (let u = u\<lparr>dtail_usage := dtail\<rparr>;
                  dlf = (f * f - f) / 2 + f * r;
                  duf = (f * f - f) / 2 + f * c;
                  u = u\<lparr>dlnz := dlnz u + dlf, dunz := dunz u + duf,
                         dhead_usage := dhead_usage u
                           + (DUNITS_Entry U (dlf + duf) + DUNITS_Int U (r + c + f))\<rparr>;
                  (Link, u) =
                    (if parent \<noteq> EMPTY then
                       (let u = u\<lparr>dtail_usage := dtail_usage u + ELEMENT_SIZE U r c\<rparr>;
                            Link = Link[i := Link ! nat parent]
                        in (Link[nat parent := int i], u))
                     else (Link, u))
              in Some (Link, u\<lparr>dmax_usage := max (dmax_usage u)
                                   (dhead_usage u + dtail_usage u)\<rparr>))))"

text \<open>One chain: the frontal matrix working array is allocated for its fronts.\<close>

definition simulate_chain ::
  "umf_internal_h \<Rightarrow> int \<Rightarrow> int \<Rightarrow> int list \<Rightarrow> int list \<Rightarrow> int list \<Rightarrow> int list \<Rightarrow> int list
   \<Rightarrow> int list \<Rightarrow> int list \<Rightarrow> nat \<Rightarrow> int list \<times> usage \<Rightarrow> (int list \<times> usage) option" where
  "simulate_chain U nb nfr Front_npivcol Fr_nrows Fr_ncols Front_parent
       Chain_start Chain_maxrows Chain_maxcols chain = (\<lambda>(Link, u).
     (let f1 = Chain_start ! chain;
          f2 = Chain_start ! (chain + 1) - 1;
          dr = real_of_int (Chain_maxrows ! chain);
          dc = real_of_int (Chain_maxcols ! chain);
          fsize = real_of_int (nb * nb) + dr * real_of_int nb + real_of_int nb * dc + dr * dc;
          u = u\<lparr>dtail_usage := dtail_usage u + DUNITS_Entry U fsize\<rparr>;
          u = u\<lparr>dmax_usage := max (dmax_usage u) (dhead_usage u + dtail_usage u)\<rparr>
      in case ofold (simulate_front U nfr Front_npivcol Fr_nrows Fr_ncols Front_parent)
                [nat f1 ..< nat (f2 + 1)] (Link, u) of
           None \<Rightarrow> None
         | Some (Link, u) \<Rightarrow>
             Some (Link, u\<lparr>dtail_usage := dtail_usage u - DUNITS_Entry U fsize\<rparr>)))"

text \<open>"simulate UMF_kernel, assuming unsymmetric pivoting"; \<^verbatim>\<open>Link\<close> is held in \<^verbatim>\<open>Ci\<close>.\<close>

definition simulate_kernel ::
  "umf_internal_h \<Rightarrow> int \<Rightarrow> int \<Rightarrow> int \<Rightarrow> int list \<Rightarrow> int list \<Rightarrow> int list \<Rightarrow> int list
   \<Rightarrow> int list \<Rightarrow> int list \<Rightarrow> int list \<Rightarrow> int list \<Rightarrow> usage \<Rightarrow> (int list \<times> usage) option" where
  "simulate_kernel U nb nfr nchains Front_npivcol Fr_nrows Fr_ncols Front_parent
       Chain_start Chain_maxrows Chain_maxcols Ci u =
     (let Link = fold (\<lambda>i Link. Link[i := EMPTY]) [0..<nat nfr] Ci
      in ofold (simulate_chain U nb nfr Front_npivcol Fr_nrows Fr_ncols Front_parent
                  Chain_start Chain_maxrows Chain_maxcols) [0..<nat nchains] (Link, u))"

subsection \<open>The Symbolic object, the workspace and the collaborators\<close>

text \<open>
  The fields of \<^verbatim>\<open>SymbolicType\<close> that \<^verbatim>\<open>symbolic_analysis\<close> sets and that are modelled,
  under their names with the prefix \<open>S_\<close>. (\<^verbatim>\<open>Front_leftmostdesc\<close>, the flop count and
  the statistics that \<^verbatim>\<open>UMF_set_stats\<close> writes to \<^verbatim>\<open>Info\<close> are left out.)
\<close>

record SymbolicType =
  S_n_row :: int
  S_n_col :: int
  S_nz :: int
  S_nb :: int
  S_n1 :: int
  S_n1r :: int
  S_n1c :: int
  S_nempty :: int
  S_nempty_row :: int
  S_nempty_col :: int
  S_dense_row_threshold :: int
  S_sym :: real
  S_nzaat :: int
  S_nzdiag :: int
  S_strategy :: int
  S_fixQ :: bool
  S_prefer_diagonal :: bool
  S_ordering :: int
  S_Cperm_init :: "int list"
  S_Rperm_init :: "int list"
  S_Cdeg :: "int list"
  S_Rdeg :: "int list"
  S_nchains :: int
  S_nfr :: int
  S_esize :: int
  S_Front_npivcol :: "int list"
  S_Front_parent :: "int list"
  S_Front_1strow :: "int list"
  S_Chain_start :: "int list"
  S_Chain_maxrows :: "int list"
  S_Chain_maxcols :: "int list"
  S_Esize :: "int list option"
  S_Diagonal_map :: "int list option"
  S_maxnrows :: int
  S_maxncols :: int
  S_num_mem_init_usage :: int
  S_dnum_mem_init_usage :: real
  S_num_mem_size_est :: real
  S_num_mem_usage_est :: real
  S_lunz_bound :: real

text \<open>
  The blocks that \<^verbatim>\<open>symbolic_analysis\<close> obtains from \<^verbatim>\<open>UMF_malloc\<close>: the Symbolic object
  and its arrays, and the workspace object \<^verbatim>\<open>SW\<close> and its arrays.
\<close>

datatype block =
    B_Symbolic | B_Cperm_init | B_Rperm_init | B_Cdeg | B_Rdeg | B_Diagonal_map
  | B_Front_npivcol | B_Front_parent | B_Front_1strow | B_Front_leftmostdesc
  | B_Chain_start | B_Chain_maxrows | B_Chain_maxcols | B_Esize
  | B_SW | B_SW_Si | B_SW_Sp | B_SW_InvRperm1 | B_SW_Cperm1 | B_SW_Ci
  | B_SW_Front_npivcol | B_SW_Front_nrows | B_SW_Front_ncols | B_SW_Front_parent
  | B_SW_Front_cols | B_SW_Rperm1 | B_SW_InFront | B_SW_Rs

text \<open>
  What the collaborators of \<^verbatim>\<open>symbolic_analysis\<close> return, as parameters of the model:
  whether each \<^verbatim>\<open>UMF_malloc\<close> succeeds and what the new block holds; the outputs of
  \<^verbatim>\<open>UMF_singletons\<close>; the symmetry and the number of entries of \<open>S+S'\<close> from
  \<^verbatim>\<open>AMD_aat\<close>; the inverse permutation of \<^verbatim>\<open>AMD_2\<close>; the return value and the
  permutation of the ordering function (the user's or \<^verbatim>\<open>UMF_cholmod\<close>) and the ordering
  \<^verbatim>\<open>UMF_cholmod\<close> reports; the outputs of \<^verbatim>\<open>UMF_colamd\<close>; the outputs of \<^verbatim>\<open>UMF_analyze\<close>;
  and the contents of the arrays \<^verbatim>\<open>Cperm_init\<close>, \<^verbatim>\<open>Rperm_init\<close> and \<^verbatim>\<open>Ci\<close>, which the
  collaborators use as workspace, when \<^verbatim>\<open>symbolic_analysis\<close> itself first writes to them.
  An array is given by its entries; its length is the one the source allocates.
\<close>

record collaborators =
  malloc_ok :: "block \<Rightarrow> bool"
  malloc_contents :: "block \<Rightarrow> nat \<Rightarrow> int"
  singletons_status :: status
  singletons_Cdeg :: "nat \<Rightarrow> int"
  singletons_Cperm1 :: "nat \<Rightarrow> int"
  singletons_Rdeg :: "nat \<Rightarrow> int"
  singletons_Rperm1 :: "nat \<Rightarrow> int"
  singletons_InvRperm1 :: "nat \<Rightarrow> int"
  singletons_n1 :: int
  singletons_n1c :: int
  singletons_n1r :: int
  singletons_nempty_col :: int
  singletons_nempty_row :: int
  singletons_is_sym :: bool
  singletons_max_rdeg :: int
  aat_nzaat :: int
  aat_sym :: real
  AMD_2_Pinv :: "nat \<Rightarrow> int"
  ordering_ok :: bool
  ordering_P :: "nat \<Rightarrow> int"
  cholmod_ordering_used :: int
  colamd_Qinv :: "nat \<Rightarrow> int"
  colamd_dense_row :: int
  colamd_dense_col :: int
  colamd_nfr :: int
  colamd_Front_npivcol :: "nat \<Rightarrow> int"
  colamd_Front_nrows :: "nat \<Rightarrow> int"
  colamd_Front_ncols :: "nat \<Rightarrow> int"
  colamd_Front_parent :: "nat \<Rightarrow> int"
  colamd_InFront :: "nat \<Rightarrow> int"
  analyze_ok :: bool
  analyze_nfr :: int
  analyze_Cperm2 :: "nat \<Rightarrow> int"
  analyze_Front_npivcol :: "nat \<Rightarrow> int"
  analyze_Front_nrows :: "nat \<Rightarrow> int"
  analyze_Front_ncols :: "nat \<Rightarrow> int"
  analyze_Front_parent :: "nat \<Rightarrow> int"
  workspace_Cperm_init :: "nat \<Rightarrow> int"
  workspace_Rperm_init :: "nat \<Rightarrow> int"
  workspace_Ci :: "nat \<Rightarrow> int"

text \<open>An array of \<open>n\<close> entries.\<close>

definition array :: "int \<Rightarrow> (nat \<Rightarrow> int) \<Rightarrow> int list" where
  "array n f = map f [0..<nat n]"

text \<open>
  \<^verbatim>\<open>UMF_malloc\<close> for a list of blocks: whether every pointer is non-null, and the blocks
  allocated afterwards.
\<close>

definition UMF_malloc :: "collaborators \<Rightarrow> block list \<Rightarrow> block set \<Rightarrow> bool \<times> block set" where
  "UMF_malloc E bs live = (list_all (malloc_ok E) bs, live \<union> {b \<in> set bs. malloc_ok E b})"

text \<open>
  \<^verbatim>\<open>UMFPACK_paru_free_sw\<close>: frees the content of the \<^verbatim>\<open>SW\<close> object, then its header.
\<close>

definition SW_blocks :: "block list" where
  "SW_blocks =
     [B_SW_InvRperm1, B_SW_Rs, B_SW_Si, B_SW_Sp, B_SW_Ci, B_SW_Front_npivcol,
      B_SW_Front_nrows, B_SW_Front_ncols, B_SW_Front_parent, B_SW_Front_cols, B_SW_Cperm1,
      B_SW_Rperm1, B_SW_InFront, B_SW]"

definition UMFPACK_paru_free_sw :: "block set \<Rightarrow> block set" where
  "UMFPACK_paru_free_sw live = live - set SW_blocks"

text \<open>
  Modelled from the spec: \<^verbatim>\<open>UMFPACK_free_symbolic\<close>, whose file is not among the sources.
  The spec has the Symbolic object "freed as a unit on any error".
\<close>

definition Symbolic_blocks :: "block list" where
  "Symbolic_blocks =
     [B_Cperm_init, B_Rperm_init, B_Cdeg, B_Rdeg, B_Diagonal_map, B_Front_npivcol,
      B_Front_parent, B_Front_1strow, B_Front_leftmostdesc, B_Chain_start, B_Chain_maxrows,
      B_Chain_maxcols, B_Esize, B_Symbolic]"

definition UMFPACK_free_symbolic :: "block set \<Rightarrow> block set" where
  "UMFPACK_free_symbolic live = live - set Symbolic_blocks"

text \<open>"Error return from UMFPACK_symbolic. Free all allocated memory."\<close>

definition error :: "block set \<Rightarrow> block set" where
  "error live = UMFPACK_free_symbolic (UMFPACK_paru_free_sw live)"

text \<open>
  What a call leaves behind: the value it returns, \<^verbatim>\<open>Info [UMFPACK_STATUS]\<close>, the
  pointer in \<^verbatim>\<open>*SymbolicHandle\<close> (the object it points to, or \<open>None\<close> for \<^verbatim>\<open>NULL\<close>), and
  the blocks that the call has allocated and not freed.
\<close>

record result =
  r_status :: status
  r_Info_STATUS :: status
  r_SymbolicHandle :: "SymbolicType option"
  r_allocated :: "block set"

definition failure :: "status \<Rightarrow> block set \<Rightarrow> result" where
  "failure st live =
     \<lparr>r_status = st, r_Info_STATUS = st, r_SymbolicHandle = None, r_allocated = live\<rparr>"

subsection \<open>\<^verbatim>\<open>do_amd\<close> and \<^verbatim>\<open>do_amd_1\<close>\<close>

text \<open>
  \<^verbatim>\<open>do_amd_1\<close> constructs the pattern of \<open>A+A'\<close> for the ordering (not modelled: it only
  reaches the collaborator) and orders the matrix: with \<^verbatim>\<open>AMD_2\<close>, which returns the
  inverse permutation itself, or with the ordering function, whose permutation \<open>P\<close> is
  checked and inverted by \<^verbatim>\<open>inverse_permutation\<close>. Returns \<open>ok\<close>, \<open>Pinv\<close> and
  \<^verbatim>\<open>*ordering_used\<close>.
\<close>

definition do_amd_1 ::
  "umfpack_h \<Rightarrow> collaborators \<Rightarrow> int \<Rightarrow> int list \<Rightarrow> int list \<Rightarrow> int \<Rightarrow> bool \<times> int list \<times> int" where
  "do_amd_1 K E n P Pinv ordering_option =
     (if ordering_option = UMFPACK_ORDERING_AMD K then
        (True, array (int (length Pinv)) (AMD_2_Pinv E), UMFPACK_ORDERING_AMD K)
      else
        (let ordering_used =
               (if ordering_option = UMFPACK_ORDERING_USER K then UMFPACK_ORDERING_USER K
                else cholmod_ordering_used E)
         in if \<not> ordering_ok E then (False, Pinv, ordering_used)
            else (case inverse_permutation (array (int (length P)) (ordering_P E)) Pinv n of
                    None \<Rightarrow> (False, Pinv, ordering_used)
                  | Some Pinv \<Rightarrow> (True, Pinv, ordering_used))))"

definition do_amd ::
  "umfpack_h \<Rightarrow> collaborators \<Rightarrow> int \<Rightarrow> int list \<Rightarrow> int list \<Rightarrow> int \<Rightarrow> bool \<times> int list \<times> int" where
  "do_amd K E n Q Qinv ordering_option =
     (if n = 0 then (True, Qinv, UMFPACK_ORDERING_NONE K)
      else do_amd_1 K E n Q Qinv ordering_option)"

subsection \<open>Strategy and ordering\<close>

text \<open>
  "determine symmetry, nzdiag, and degrees of S+S'" and "determine the initial strategy
  based on symmetry and nnz (diag (S))". Without pattern symmetry of the singleton
  ordering the strategy is unsymmetric; unless it is unsymmetric, \<^verbatim>\<open>nzdiag\<close> comes from
  \<^verbatim>\<open>prune_singletons\<close> and \<^verbatim>\<open>sym\<close> and \<^verbatim>\<open>nzaat\<close> from \<^verbatim>\<open>AMD_aat\<close>; and the auto strategy
  is resolved. Returns the strategy, \<^verbatim>\<open>sym\<close>, \<^verbatim>\<open>nzaat\<close>, \<^verbatim>\<open>nzdiag\<close> and the arrays
  \<^verbatim>\<open>Si\<close> and \<^verbatim>\<open>Sp\<close>. The test of the source is
  \<^verbatim>\<open>(double) nzdiag >= (tnzd * ((double) n2))\<close>: the two conversions and the product are
  rounded to \<^verbatim>\<open>double\<close>.
\<close>

definition auto_strategy ::
  "umfpack_h \<Rightarrow> umf_internal_h \<Rightarrow> control option \<Rightarrow> real \<Rightarrow> int \<Rightarrow> int \<Rightarrow> int \<Rightarrow> int" where
  "auto_strategy K U Control sym' nzdiag n2 strategy =
     (if strategy = UMFPACK_STRATEGY_AUTO K then
        (let tsym = GET_CONTROL Control UMFPACK_STRATEGY_THRESH_SYM
                      (UMFPACK_DEFAULT_STRATEGY_THRESH_SYM K);
             tnzd = GET_CONTROL Control UMFPACK_STRATEGY_THRESH_NNZDIAG
                      (UMFPACK_DEFAULT_STRATEGY_THRESH_NNZDIAG K)
         in if sym' \<ge> tsym
               \<and> double_round U (real_of_int nzdiag)
                   \<ge> double_round U (tnzd * double_round U (real_of_int n2))
            then UMFPACK_STRATEGY_SYMMETRIC K else UMFPACK_STRATEGY_UNSYMMETRIC K)
      else strategy)"

definition select_strategy ::
  "umfpack_h \<Rightarrow> umf_internal_h \<Rightarrow> collaborators \<Rightarrow> control option \<Rightarrow> int \<Rightarrow> int list \<Rightarrow> int list
   \<Rightarrow> real list option \<Rightarrow> bool \<Rightarrow> int \<Rightarrow> int \<Rightarrow> int list \<Rightarrow> int list \<Rightarrow> int list \<Rightarrow> int list
   \<Rightarrow> int \<Rightarrow> int \<times> real \<times> int \<times> int \<times> int list \<times> int list" where
  "select_strategy K U E Control nn Ap Ai Ax is_sym n1 n2 Cperm1 InvRperm1 Si Sp strategy =
     (let strategy = (if \<not> is_sym then UMFPACK_STRATEGY_UNSYMMETRIC K else strategy);
          (sym', nzaat, nzdiag, Si, Sp) =
            (if strategy \<noteq> UMFPACK_STRATEGY_UNSYMMETRIC K then
               (let (nzdiag, Si, Sp) = prune_singletons n1 nn Ap Ai Ax Cperm1 InvRperm1 Si Sp
                in (aat_sym E, aat_nzaat E, nzdiag, Si, Sp))
             else (real_of_int EMPTY, EMPTY, EMPTY, Si, Sp))
      in (auto_strategy K U Control sym' nzdiag n2 strategy, sym', nzaat, nzdiag, Si, Sp))"

text \<open>"finalize the strategy, including fixQ and prefer_diagonal".\<close>

definition finalize_fixQ :: "umfpack_h \<Rightarrow> real \<Rightarrow> int \<Rightarrow> bool \<times> bool" where
  "finalize_fixQ K force_fixQ strategy =
     (let (fixQ, prefer_diagonal) =
            (if strategy = UMFPACK_STRATEGY_SYMMETRIC K then (True, True) else (False, False));
          fixQ = (if force_fixQ > 0 then True else if force_fixQ < 0 then False else fixQ)
      in (fixQ, prefer_diagonal))"

text \<open>
  "METIS_GUARD ordering: select between METIS and COLAMD", under the unsymmetric
  strategy without \<^verbatim>\<open>Quser\<close>: the ordering option after the test.
\<close>

definition metis_guard :: "umfpack_h \<Rightarrow> real \<Rightarrow> int \<Rightarrow> int \<Rightarrow> int \<Rightarrow> int \<Rightarrow> int" where
  "metis_guard K drow max_rdeg nrow2 ncol2 ordering_option =
     (if ordering_option = UMFPACK_ORDERING_METIS_GUARD K then
        (if nrow2 = 0 \<or> ncol2 = 0 then UMFPACK_ORDERING_AMD K
         else
           (let metis_guard = UMFPACK_DENSE_DEGREE_THRESHOLD K drow ncol2
            in if max_rdeg > metis_guard then UMFPACK_ORDERING_AMD K
               else UMFPACK_ORDERING_METIS K))
      else ordering_option)"

text \<open>
  "use COLAMD or user_ordering to order the matrix" (unsymmetric strategy, no \<^verbatim>\<open>Quser\<close>).
  Returns the status of a failure, or \<^verbatim>\<open>Symbolic->ordering\<close>, \<^verbatim>\<open>Cperm_init\<close> and
  \<^verbatim>\<open>do_UMF_analyze\<close>. (The copy of the pruned matrix that \<^verbatim>\<open>prune_singletons\<close> makes for
  the ordering only reaches the collaborator.)
\<close>

definition unsymmetric_ordering ::
  "umfpack_h \<Rightarrow> collaborators \<Rightarrow> int \<Rightarrow> int \<Rightarrow> real \<Rightarrow> int \<Rightarrow> int \<Rightarrow> int \<Rightarrow> int \<Rightarrow> int
   \<Rightarrow> int list \<Rightarrow> int list \<Rightarrow> int list \<Rightarrow> int list \<Rightarrow> int list
   \<Rightarrow> status + (int \<times> int list \<times> bool)" where
  "unsymmetric_ordering K E n_row n_col drow ordering_option n1 nempty_row nempty_col max_rdeg
       Cperm1 Cperm_init Fr_npivcol Fr_nrows Ci =
     (let nrow2 = n_row - n1 - nempty_row;
          ncol2 = n_col - n1 - nempty_col;
          ordering_option = metis_guard K drow max_rdeg nrow2 ncol2 ordering_option
      in if (ordering_option = UMFPACK_ORDERING_USER K
             \<or> ordering_option = UMFPACK_ORDERING_NONE K
             \<or> ordering_option = UMFPACK_ORDERING_METIS K
             \<or> ordering_option = UMFPACK_ORDERING_CHOLMOD K
             \<or> ordering_option = UMFPACK_ORDERING_BEST K)
            \<and> nrow2 > 0 \<and> ncol2 > 0
         then
           (let Qinv = Fr_npivcol;
                QQ = array (int (length Fr_nrows)) (ordering_P E);
                ordering_used =
                  (if ordering_option = UMFPACK_ORDERING_USER K then UMFPACK_ORDERING_USER K
                   else cholmod_ordering_used E)
            in if \<not> ordering_ok E then Inl UMFPACK_ERROR_ordering_failed
               else (case inverse_permutation QQ Qinv ncol2 of
                       None \<Rightarrow> Inl UMFPACK_ERROR_ordering_failed
                     | Some Qinv \<Rightarrow>
                         Inr (ordering_used,
                              combine_ordering n1 nempty_col n_col Cperm_init Cperm1 Qinv,
                              True)))
         else
           (let Ci = array (int (length Ci)) (colamd_Qinv E);
                do_UMF_analyze = (colamd_dense_row E > 0 \<or> colamd_dense_col E > 0)
            in Inr (UMFPACK_ORDERING_AMD K,
                    combine_ordering n1 nempty_col n_col Cperm_init Cperm1 Ci,
                    do_UMF_analyze)))"

text \<open>
  The three steps that fix the column ordering: "get the AMD ordering for the symmetric
  strategy", "use the user's input column ordering (already in Cperm1)", and "use COLAMD
  or user_ordering to order the matrix". \<open>ordering_used\<close> is \<^verbatim>\<open>Symbolic->ordering\<close>, which is
  \<^verbatim>\<open>EMPTY\<close> until it is determined.
\<close>

definition find_ordering ::
  "umfpack_h \<Rightarrow> collaborators \<Rightarrow> int \<Rightarrow> int \<Rightarrow> bool \<Rightarrow> real \<Rightarrow> int \<Rightarrow> int \<Rightarrow> int \<Rightarrow> int
   \<Rightarrow> int \<Rightarrow> int \<Rightarrow> int \<Rightarrow> int \<Rightarrow> int list \<Rightarrow> int list \<Rightarrow> int list \<Rightarrow> int list \<Rightarrow> int list
   \<Rightarrow> int list \<Rightarrow> status + (int \<times> int list \<times> bool)" where
  "find_ordering K E n_row n_col Quser_is_NULL drow strategy ordering_option n1 nempty
       nempty_row nempty_col n2 max_rdeg Cperm1 Cperm_init Rperm_init Fr_npivcol Fr_nrows Ci =
     (let nn = max n_row n_col;
          symmetric_step =
            (if strategy = UMFPACK_STRATEGY_SYMMETRIC K \<and> Quser_is_NULL then
               (let ordering_option =
                      (if ordering_option = UMFPACK_ORDERING_METIS_GUARD K
                       then UMFPACK_ORDERING_METIS K else ordering_option);
                    Qinv = Fr_npivcol;
                    (ok, Qinv, ordering_used) = do_amd K E n2 Rperm_init Qinv ordering_option
                in if \<not> ok then Inl UMFPACK_ERROR_ordering_failed
                   else Inr (ordering_used, combine_ordering n1 nempty nn Cperm_init Cperm1 Qinv))
             else Inr (EMPTY, Cperm_init))
      in case symmetric_step of
           Inl st \<Rightarrow> Inl st
         | Inr (ordering_used, Cperm_init) \<Rightarrow>
             (let (ordering_used, Cperm_init) =
                    (if \<not> Quser_is_NULL then
                       (UMFPACK_ORDERING_GIVEN K,
                        fold (\<lambda>k C. C[k := Cperm1 ! k]) [0..<nat n_col] Cperm_init)
                     else (ordering_used, Cperm_init))
              in if strategy = UMFPACK_STRATEGY_UNSYMMETRIC K \<and> Quser_is_NULL then
                   unsymmetric_ordering K E n_row n_col drow ordering_option n1 nempty_row
                     nempty_col max_rdeg Cperm1 Cperm_init Fr_npivcol Fr_nrows Ci
                 else Inr (ordering_used, Cperm_init, True)))"

subsection \<open>Symbolic factorization and the rest of the analysis\<close>

text \<open>
  "symbolic factorization (unless colamd has already done it)". Returns the status of a
  failure, or \<^verbatim>\<open>nempty_row\<close>, \<^verbatim>\<open>Cperm_init\<close>, \<^verbatim>\<open>nfr\<close> and the arrays of the fronts in
  \<^verbatim>\<open>SW\<close>. \<open>W\<close> and \<open>P\<close> are slices of \<^verbatim>\<open>Ci\<close>. (The transpose \<open>B\<close> of the pruned matrix
  only reaches \<^verbatim>\<open>UMF_analyze\<close>.)
\<close>

definition symbolic_factorization ::
  "collaborators \<Rightarrow> int \<Rightarrow> int \<Rightarrow> int list \<Rightarrow> int list \<Rightarrow> bool \<Rightarrow> int \<Rightarrow> int \<Rightarrow> int
   \<Rightarrow> int list \<Rightarrow> int list \<Rightarrow> int list \<Rightarrow> int list \<Rightarrow> bool
   \<Rightarrow> status + (int \<times> int list \<times> int \<times> int list \<times> int list \<times> int list \<times> int list)" where
  "symbolic_factorization E n_row n_col Ap Ai fixQ n1 nempty_row nempty_col InvRperm1
       Cperm_init Si Sp do_UMF_analyze =
     (let nn = max n_row n_col
      in if do_UMF_analyze then
           (let (nzdiag, Si, Sp) = prune_singletons n1 n_col Ap Ai None Cperm_init InvRperm1 Si Sp;
                W = array nn (workspace_Ci E);
                P = array nn (workspace_Ci E);
                (k, P) = first_touch_rows n_row n_col n1 Sp Si W P;
                nempty_row = n_row - n1 - k
            in if \<not> analyze_ok E then Inl UMFPACK_ERROR_internal_error
               else
                 (let Cperm2 = array n_col (analyze_Cperm2 E);
                      W = array nn (workspace_Ci E);
                      Cperm_init =
                        (if \<not> fixQ then apply_postorder n_col n1 nempty_col Cperm2 W Cperm_init
                         else Cperm_init)
                  in Inr (nempty_row, Cperm_init, analyze_nfr E,
                          array (n_col + 1) (analyze_Front_npivcol E),
                          array n_col (analyze_Front_nrows E),
                          array n_col (analyze_Front_ncols E),
                          array n_col (analyze_Front_parent E))))
         else
           Inr (nempty_row, Cperm_init, colamd_nfr E,
                array (n_col + 1) (colamd_Front_npivcol E),
                array n_col (colamd_Front_nrows E),
                array n_col (colamd_Front_ncols E),
                array n_col (colamd_Front_parent E)))"

text \<open>
  From "free some of the workspace" to the end of \<^verbatim>\<open>symbolic_analysis\<close>: the second part
  of the Symbolic object is allocated, the rows are assigned to fronts, the row
  permutation, the diagonal map, the chains and the element sizes are found, the degrees
  are permuted, and the numeric factorization is simulated. \<open>None\<close> says that the
  call has no result: the diagonal map was read outside an array, or the simulation did
  not return.
\<close>

definition finish_analysis ::
  "umf_internal_h \<Rightarrow> collaborators \<Rightarrow> int \<Rightarrow> int \<Rightarrow> int list \<Rightarrow> int list \<Rightarrow> bool \<Rightarrow> bool
   \<Rightarrow> int \<Rightarrow> int \<Rightarrow> SymbolicType \<Rightarrow> int \<Rightarrow> int \<Rightarrow> int list \<Rightarrow> int list \<Rightarrow> int list
   \<Rightarrow> int list \<Rightarrow> int list \<Rightarrow> int list \<Rightarrow> int list \<Rightarrow> int list \<Rightarrow> int list \<Rightarrow> int list
   \<Rightarrow> bool \<Rightarrow> block set \<Rightarrow> result option" where
  "finish_analysis U E n_row n_col Ap Ai SW_Handle for_Paru nb max_rdeg Symbolic nempty_row nfr
       Fr_npivcol Fr_nrows Fr_ncols Fr_parent Rperm1 Cperm_init Rperm_init Cdeg Rdeg Ci
       do_UMF_analyze live =
     (let nn = max n_row n_col;
          n_inner = min n_row n_col;
          n1 = S_n1 Symbolic;
          nempty_col = S_nempty_col Symbolic;
          dense_row_threshold = S_dense_row_threshold Symbolic;
          prefer_diagonal = S_prefer_diagonal Symbolic;
          live = live - {B_SW_Si, B_SW_Sp, B_SW_Cperm1};
          nchains = count_chains nfr Fr_parent;
          esize = (if max_rdeg > dense_row_threshold then n_col - n1 - nempty_col else 0);
          (ok, live) =
            UMF_malloc E [B_Front_npivcol, B_Front_parent, B_Front_1strow, B_Front_leftmostdesc,
                          B_Chain_start, B_Chain_maxrows, B_Chain_maxcols] live;
          (ok_Esize, live) = (if esize > 0 then UMF_malloc E [B_Esize] live else (True, live))
      in if \<not> ok \<or> \<not> ok_Esize then Some (failure UMFPACK_ERROR_out_of_memory (error live))
         else
           (let Front_npivcol = array (nfr + 1) (malloc_contents E B_Front_npivcol);
                Front_parent = array (nfr + 1) (malloc_contents E B_Front_parent);
                Front_1strow = array (nfr + 1) (malloc_contents E B_Front_1strow);
                Chain_start = array (nchains + 1) (malloc_contents E B_Chain_start);
                Chain_maxrows = array (nchains + 1) (malloc_contents E B_Chain_maxrows);
                Chain_maxcols = array (nchains + 1) (malloc_contents E B_Chain_maxcols);
                Esize = (if esize > 0 then Some (array esize (malloc_contents E B_Esize))
                         else None);
                (InFront, Front_1strow, Ci) =
                  (if do_UMF_analyze then
                     (let (InFront, Front_1strow) =
                            assign_rows_analyze n_row n1 nfr Ap Ai Rperm1 Cperm_init Fr_npivcol
                              (array n_row (malloc_contents E B_SW_InFront)) Front_1strow
                      in (InFront, Front_1strow, Ci))
                   else assign_rows_colamd n_row n1 nempty_row nfr Rperm1 Ci
                          (array n_row (colamd_InFront E)) Front_1strow);
                (Front_npivcol, Front_parent) =
                  copy_fronts n_col n1 nfr Fr_npivcol Fr_parent Front_npivcol Front_parent;
                (Rperm_init, Front_1strow, Ci) =
                  find_Rperm_init n_row n1 nfr Rperm1 InFront Front_1strow Ci Rperm_init;
                (ok_Diagonal_map, live) =
                  (if prefer_diagonal \<or> for_Paru then UMF_malloc E [B_Diagonal_map] live
                   else (True, live))
            in if \<not> ok_Diagonal_map
               then Some (failure UMFPACK_ERROR_out_of_memory (error live))
               else
                 (case (if prefer_diagonal \<or> for_Paru then
                          map_option (\<lambda>(Dm, Ci). (Some Dm, Ci))
                            (find_Diagonal_map nn Rperm_init Cperm_init Ci
                               (array (n_col + 1) (malloc_contents E B_Diagonal_map)))
                        else Some (None, Ci)) of
                    None \<Rightarrow> None
                  | Some (Diagonal_map, Ci) \<Rightarrow>
                 (let c = find_chains nfr Fr_nrows Fr_ncols Front_parent
                            Chain_start Chain_maxrows Chain_maxcols;
                      (Esize, Ci) =
                        (if max_rdeg > dense_row_threshold then
                           (let (Es, Ci) =
                                  find_Esize n_row n_col n1 nempty_col dense_row_threshold Ap Ai
                                    Cperm_init Rperm_init Cdeg Rdeg Ci
                                    (case Esize of Some Es \<Rightarrow> Es | None \<Rightarrow> [])
                            in (map_option (\<lambda>_. Es) Esize, Ci))
                         else (Esize, Ci));
                      (Cdeg, Ci) = permute_degrees n_col Cperm_init Cdeg Ci;
                      (Rdeg, Ci) = permute_degrees n_row Rperm_init Rdeg Ci;
                      u = simulate_kernel_init U n_row n_col n1 nempty_row nempty_col n_inner
                            dense_row_threshold Cdeg Rdeg Esize;
                      (num_mem_init_usage, dnum_mem_init_usage, u) = record_init_usage U n_row u
                  in case simulate_kernel U nb nfr (c_nchains c) Front_npivcol Fr_nrows Fr_ncols
                            Front_parent (c_Chain_start c) (c_Chain_maxrows c)
                            (c_Chain_maxcols c) Ci u of
                       None \<Rightarrow> None
                     | Some (Link, u) \<Rightarrow>
                         (let dhead_usage = ceil (dhead_usage u);
                              dmax_usage = ceil (dmax_usage u);
                              Symbolic = Symbolic
                                \<lparr>S_Cperm_init := Cperm_init, S_Rperm_init := Rperm_init,
                                 S_Cdeg := Cdeg, S_Rdeg := Rdeg,
                                 S_nchains := nchains, S_nfr := nfr, S_esize := esize,
                                 S_Front_npivcol := Front_npivcol,
                                 S_Front_parent := Front_parent,
                                 S_Front_1strow := Front_1strow,
                                 S_Chain_start := c_Chain_start c,
                                 S_Chain_maxrows := c_Chain_maxrows c,
                                 S_Chain_maxcols := c_Chain_maxcols c,
                                 S_Esize := Esize, S_Diagonal_map := Diagonal_map,
                                 S_maxnrows := c_maxnrows c, S_maxncols := c_maxncols c,
                                 S_num_mem_init_usage := num_mem_init_usage,
                                 S_dnum_mem_init_usage := dnum_mem_init_usage,
                                 S_num_mem_size_est := dhead_usage,
                                 S_num_mem_usage_est := dmax_usage,
                                 S_lunz_bound := dlnz u + dunz u - real_of_int n_inner\<rparr>;
                              live = (if SW_Handle then live else UMFPACK_paru_free_sw live)
                          in Some \<lparr>r_status = UMFPACK_OK, r_Info_STATUS = UMFPACK_OK,
                                   r_SymbolicHandle = Some Symbolic, r_allocated = live\<rparr>)))))"

subsection \<open>\<^verbatim>\<open>symbolic_analysis\<close>\<close>

text \<open>
  The macro \<^verbatim>\<open>UMF_ANALYZE_CLEN\<close> of the source, and the size \<^verbatim>\<open>Clen\<close> of \<^verbatim>\<open>Ci\<close>.
\<close>

definition UMF_ANALYZE_CLEN :: "int \<Rightarrow> int \<Rightarrow> int \<Rightarrow> int \<Rightarrow> int" where
  "UMF_ANALYZE_CLEN nz n_row n_col nn = n_col + max nz n_col + 3 * nn + 1 + n_col"

definition get_Clen :: "umf_internal_h \<Rightarrow> int \<Rightarrow> int \<Rightarrow> int \<Rightarrow> int" where
  "get_Clen U nz n_row n_col =
     (let nn = max n_row n_col;
          n_inner = min n_row n_col;
          Clen = UMF_COLAMD_RECOMMENDED U nz n_row n_col;
          Clen_analyze = UMF_ANALYZE_CLEN nz n_row n_col nn;
          Clen = max Clen Clen_analyze;
          Clen_amd = Int_of_double (2.4 * real_of_int nz + 8 * real_of_int n_inner + 1)
      in max Clen Clen_amd)"

text \<open>
  The part of \<^verbatim>\<open>symbolic_analysis\<close> after \<^verbatim>\<open>UMF_singletons\<close> has returned
  \<^verbatim>\<open>UMFPACK_OK\<close>: the strategy, the column ordering, the symbolic factorization and the
  rest.
\<close>

definition analysis_after_singletons ::
  "umfpack_h \<Rightarrow> umf_internal_h \<Rightarrow> collaborators \<Rightarrow> int \<Rightarrow> int \<Rightarrow> int list \<Rightarrow> int list
   \<Rightarrow> real list option \<Rightarrow> bool \<Rightarrow> bool \<Rightarrow> control option \<Rightarrow> bool \<Rightarrow> int \<Rightarrow> int \<Rightarrow> real
   \<Rightarrow> int \<Rightarrow> real \<Rightarrow> int \<Rightarrow> block set \<Rightarrow> result option" where
  "analysis_after_singletons K U E n_row n_col Ap Ai Ax Quser_is_NULL SW_Handle Control for_Paru
       nz nb drow strategy force_fixQ ordering_option live =
     (let nn = max n_row n_col;
          Clen = get_Clen U nz n_row n_col;
          n1 = singletons_n1 E;
          nempty_col = singletons_nempty_col E;
          nempty_row = singletons_nempty_row E;
          is_sym = singletons_is_sym E;
          max_rdeg = singletons_max_rdeg E;
          Cdeg = array (n_col + 1) (singletons_Cdeg E);
          Rdeg = array (n_row + 1) (singletons_Rdeg E);
          Cperm1 = array n_col (singletons_Cperm1 E);
          Rperm1 = array n_row (singletons_Rperm1 E);
          InvRperm1 = array n_row (singletons_InvRperm1 E);
          nempty = min nempty_col nempty_row;
          n2 = nn - n1 - nempty;
          dense_row_threshold = UMFPACK_DENSE_DEGREE_THRESHOLD K drow (n_col - n1 - nempty_col);
          Si = array nz (malloc_contents E B_SW_Si);
          Sp = array (n_col + 1) (malloc_contents E B_SW_Sp);
          (strategy, sym', nzaat, nzdiag, Si, Sp) =
            select_strategy K U E Control nn Ap Ai Ax is_sym n1 n2 Cperm1 InvRperm1 Si Sp
              strategy;
          (fixQ, prefer_diagonal) = finalize_fixQ K force_fixQ strategy;
          Cperm_init = array (n_col + 1) (workspace_Cperm_init E);
          Rperm_init = array (n_row + 1) (workspace_Rperm_init E);
          Ci = array Clen (workspace_Ci E)
      in case find_ordering K E n_row n_col Quser_is_NULL drow strategy ordering_option n1 nempty
                nempty_row nempty_col n2 max_rdeg Cperm1 Cperm_init Rperm_init
                (array (n_col + 1) (malloc_contents E B_SW_Front_npivcol))
                (array n_col (malloc_contents E B_SW_Front_nrows)) Ci of
           Inl st \<Rightarrow> Some (failure st (error live))
         | Inr (ordering_used, Cperm_init, do_UMF_analyze) \<Rightarrow>
             (let Cperm_init = Cperm_init[nat n_col := EMPTY]
              in case symbolic_factorization E n_row n_col Ap Ai fixQ n1 nempty_row nempty_col
                        InvRperm1 Cperm_init Si Sp do_UMF_analyze of
                   Inl st \<Rightarrow> Some (failure st (error live))
                 | Inr (nempty_row', Cperm_init, nfr, Fr_npivcol, Fr_nrows, Fr_ncols, Fr_parent) \<Rightarrow>
                     (let Symbolic =
                            \<lparr>S_n_row = n_row, S_n_col = n_col, S_nz = nz, S_nb = nb,
                             S_n1 = n1, S_n1r = singletons_n1r E, S_n1c = singletons_n1c E,
                             S_nempty = nempty, S_nempty_row = nempty_row,
                             S_nempty_col = nempty_col,
                             S_dense_row_threshold = dense_row_threshold,
                             S_sym = sym', S_nzaat = nzaat, S_nzdiag = nzdiag,
                             S_strategy = strategy, S_fixQ = fixQ,
                             S_prefer_diagonal = prefer_diagonal, S_ordering = ordering_used,
                             S_Cperm_init = Cperm_init, S_Rperm_init = Rperm_init,
                             S_Cdeg = Cdeg, S_Rdeg = Rdeg,
                             S_nchains = 0, S_nfr = 0, S_esize = 0,
                             S_Front_npivcol = [], S_Front_parent = [], S_Front_1strow = [],
                             S_Chain_start = [], S_Chain_maxrows = [], S_Chain_maxcols = [],
                             S_Esize = None, S_Diagonal_map = None,
                             S_maxnrows = 0, S_maxncols = 0,
                             S_num_mem_init_usage = 0, S_dnum_mem_init_usage = 0,
                             S_num_mem_size_est = 0, S_num_mem_usage_est = 0,
                             S_lunz_bound = 0\<rparr>
                      in finish_analysis U E n_row n_col Ap Ai SW_Handle for_Paru nb max_rdeg
                           Symbolic nempty_row' nfr Fr_npivcol Fr_nrows Fr_ncols Fr_parent Rperm1
                           Cperm_init Rperm_init Cdeg Rdeg Ci do_UMF_analyze live)))"

text \<open>
  \<^verbatim>\<open>symbolic_analysis\<close>. \<open>user_ordering\<close>, \<open>SymbolicHandle\<close> and \<open>SW_Handle\<close> say whether
  the pointer is non-null. From the control settings and the checks of the arguments to
  the call of \<^verbatim>\<open>UMF_singletons\<close>; \<^verbatim>\<open>*SymbolicHandle\<close> is set to \<^verbatim>\<open>NULL\<close> first, and every
  return after the Symbolic object is allocated goes through \<^verbatim>\<open>error\<close>.
\<close>

definition symbolic_analysis ::
  "umfpack_h \<Rightarrow> umf_internal_h \<Rightarrow> collaborators \<Rightarrow> int \<Rightarrow> int \<Rightarrow> int list option
   \<Rightarrow> int list option \<Rightarrow> real list option \<Rightarrow> int list option \<Rightarrow> bool \<Rightarrow> bool \<Rightarrow> bool
   \<Rightarrow> control option \<Rightarrow> bool \<Rightarrow> result option" where
  "symbolic_analysis K U E n_row n_col Ap Ai Ax Quser user_ordering SymbolicHandle SW_Handle
       Control for_Paru =
     (let drow = GET_CONTROL Control UMFPACK_DENSE_ROW (UMFPACK_DEFAULT_DENSE_ROW K);
          nb = get_nb K U Control;
          force_fixQ = GET_CONTROL Control UMFPACK_FIXQ (UMFPACK_DEFAULT_FIXQ K);
          ordering_option = get_ordering_option K Control (Quser = None) (\<not> user_ordering)
      in case (Ai, Ap) of
           (Some Ai, Some Ap) \<Rightarrow>
             if \<not> SymbolicHandle then Some (failure UMFPACK_ERROR_argument_missing {})
             else if n_row \<le> 0 \<or> n_col \<le> 0
               then Some (failure UMFPACK_ERROR_n_nonpositive {})
             else
               (let nz = Ap ! nat n_col
                in if nz < 0 then Some (failure UMFPACK_ERROR_invalid_matrix {})
                   else
                     (let strategy = get_strategy K Control n_row n_col (Quser = None)
                      in if Clen_INT_OVERFLOW U nz n_row n_col
                         then Some (failure UMFPACK_ERROR_out_of_memory {})
                         else
                           (let (ok, live) = UMF_malloc E [B_Symbolic] {}
                            in if \<not> ok
                               then Some (failure UMFPACK_ERROR_out_of_memory (error live))
                               else
                                 (let (ok, live) =
                                        UMF_malloc E [B_Cperm_init, B_Rperm_init, B_Cdeg, B_Rdeg]
                                          live
                                  in if \<not> ok
                                     then Some (failure UMFPACK_ERROR_out_of_memory (error live))
                                     else if (case Quser of
                                                Some Q \<Rightarrow> \<not> UMF_is_permutation Q n_col n_col
                                              | None \<Rightarrow> False)
                                     then Some (failure UMFPACK_ERROR_invalid_permutation
                                                  (error live))
                                     else
                                       (let (ok, live) = UMF_malloc E [B_SW] live
                                        in if \<not> ok
                                           then Some (failure UMFPACK_ERROR_out_of_memory
                                                        (error live))
                                           else
                                             (let (ok, live) =
                                                    UMF_malloc E
                                                      [B_SW_Si, B_SW_Sp, B_SW_InvRperm1,
                                                       B_SW_Cperm1, B_SW_Ci, B_SW_Front_npivcol,
                                                       B_SW_Front_nrows, B_SW_Front_ncols,
                                                       B_SW_Front_parent, B_SW_Front_cols,
                                                       B_SW_Rperm1, B_SW_InFront] live
                                              in if \<not> ok
                                                 then Some (failure UMFPACK_ERROR_out_of_memory
                                                              (error live))
                                                 else if singletons_status E \<noteq> UMFPACK_OK
                                                 then Some (failure (singletons_status E)
                                                              (error live))
                                                 else analysis_after_singletons K U E n_row n_col
                                                        Ap Ai Ax (Quser = None) SW_Handle Control
                                                        for_Paru nz nb drow strategy force_fixQ
                                                        ordering_option live))))))
         | _ \<Rightarrow> Some (failure UMFPACK_ERROR_argument_missing {}))"

text \<open>
  The three entry points: \<^verbatim>\<open>UMFPACK_qsymbolic\<close> (the user may give \<^verbatim>\<open>Quser\<close>),
  \<^verbatim>\<open>UMFPACK_fsymbolic\<close> (the user gives an ordering function) and
  \<^verbatim>\<open>UMFPACK_paru_symbolic\<close> (which also returns \<^verbatim>\<open>SW\<close>).
\<close>

definition UMFPACK_qsymbolic ::
  "umfpack_h \<Rightarrow> umf_internal_h \<Rightarrow> collaborators \<Rightarrow> int \<Rightarrow> int \<Rightarrow> int list option
   \<Rightarrow> int list option \<Rightarrow> real list option \<Rightarrow> int list option \<Rightarrow> bool \<Rightarrow> control option
   \<Rightarrow> result option" where
  "UMFPACK_qsymbolic K U E n_row n_col Ap Ai Ax Quser SymbolicHandle Control =
     symbolic_analysis K U E n_row n_col Ap Ai Ax Quser False SymbolicHandle False Control False"

definition UMFPACK_fsymbolic ::
  "umfpack_h \<Rightarrow> umf_internal_h \<Rightarrow> collaborators \<Rightarrow> int \<Rightarrow> int \<Rightarrow> int list option
   \<Rightarrow> int list option \<Rightarrow> real list option \<Rightarrow> bool \<Rightarrow> bool \<Rightarrow> control option \<Rightarrow> result option" where
  "UMFPACK_fsymbolic K U E n_row n_col Ap Ai Ax user_ordering SymbolicHandle Control =
     symbolic_analysis K U E n_row n_col Ap Ai Ax None user_ordering SymbolicHandle False
       Control False"

definition UMFPACK_paru_symbolic ::
  "umfpack_h \<Rightarrow> umf_internal_h \<Rightarrow> collaborators \<Rightarrow> int \<Rightarrow> int \<Rightarrow> int list option
   \<Rightarrow> int list option \<Rightarrow> real list option \<Rightarrow> int list option \<Rightarrow> bool \<Rightarrow> bool \<Rightarrow> bool
   \<Rightarrow> control option \<Rightarrow> result option" where
  "UMFPACK_paru_symbolic K U E n_row n_col Ap Ai Ax Quser user_ordering SymbolicHandle SW_Handle
       Control =
     symbolic_analysis K U E n_row n_col Ap Ai Ax Quser user_ordering SymbolicHandle SW_Handle
       Control True"

subsection \<open>Notions the properties are stated with\<close>

text \<open>
  The first \<open>n\<close> entries of \<open>P\<close> are a permutation of \<open>0..n-1\<close>: every index appears
  exactly once.
\<close>

definition permutation_of :: "int list \<Rightarrow> int \<Rightarrow> bool" where
  "permutation_of P n =
     (nat n \<le> length P \<and> distinct (take (nat n) P) \<and> set (take (nat n) P) = {0..<n})"

text \<open>
  The positions \<open>p\<close> in \<^verbatim>\<open>Ai\<close> (and \<^verbatim>\<open>Ax\<close>) of the entries on the diagonal of the pruned
  matrix \<open>S = A (Rperm1 [n1..], Cperm1 [n1..])\<close>: the entries of a column \<open>Cperm1 [k]\<close>,
  \<open>k \<ge> n1\<close>, whose row is \<open>Rperm1 [k]\<close>.
\<close>

definition diagonal_entries :: "int \<Rightarrow> int \<Rightarrow> int list \<Rightarrow> int list \<Rightarrow> int list \<Rightarrow> int list \<Rightarrow> nat list" where
  "diagonal_entries n1 n_col Ap Ai Cperm1 InvRperm1 =
     concat (map (\<lambda>k. filter (\<lambda>p. InvRperm1 ! nat (Ai ! p) = int k)
                          [nat (Ap ! nat (Cperm1 ! k)) ..< nat (Ap ! nat (Cperm1 ! k + 1))])
                 [nat n1 ..< nat n_col])"

text \<open>
  The count of the diagonal entries of the pruned matrix as the claim words it
  (structurally nonzero, and numerically nonzero when \<^verbatim>\<open>Ax\<close> is given), and as the code
  counts it (the numerically nonzero ones when \<^verbatim>\<open>Ax\<close> is given, none otherwise).
\<close>

definition nzdiag_structural :: "real list option \<Rightarrow> nat list \<Rightarrow> int" where
  "nzdiag_structural Ax ps =
     int (length (filter (\<lambda>p. case Ax of None \<Rightarrow> True | Some ax \<Rightarrow> ax ! p \<noteq> 0) ps))"

definition nzdiag_numerical :: "real list option \<Rightarrow> nat list \<Rightarrow> int" where
  "nzdiag_numerical Ax ps =
     (case Ax of None \<Rightarrow> 0 | Some ax \<Rightarrow> int (length (filter (\<lambda>p. ax ! p \<noteq> 0) ps)))"

text \<open>
  A Numeric object at address 1 with members at 2..12 (\<^verbatim>\<open>Rs\<close> absent), held by the handle
  at address 0, next to an unrelated block 20.
\<close>

definition numeric_example :: NumericType where
  "numeric_example =
     \<lparr>D = Some 2, Rperm = Some 3, Cperm = Some 4, Lpos = Some 5, Lilen = Some 6,
      Lip = Some 7, Upos = Some 8, Uilen = Some 9, Uip = Some 10, Rs = None,
      Upattern = Some 11, Memory = Some 12\<rparr>"

definition store_example :: store where
  "store_example =
     \<lparr>allocated = {1, 2, 3, 4, 5, 6, 7, 8, 9, 10, 11, 12, 20},
      numeric_at = (\<lambda>_. numeric_example),
      handle_at = (\<lambda>_. None)(0 := Some 1)\<rparr>"

subsection \<open>An instance of the headers\<close>

text \<open>
  The values of \<^verbatim>\<open>umfpack.h\<close> in UMFPACK 6: the orderings CHOLMOD 0, AMD 1, GIVEN 2,
  METIS 3, BEST 4, NONE 5, USER 6, METIS_GUARD 7; the strategies AUTO 0, UNSYMMETRIC 1,
  OBSOLETE 2, SYMMETRIC 3; and \<^verbatim>\<open>UMFPACK_DENSE_DEGREE_THRESHOLD (alpha, n)\<close> as
  \<^verbatim>\<open>((Int) MAX (16.0, (alpha) * 16.0 * sqrt ((double) (n))))\<close>.
\<close>

definition umfpack_6 :: umfpack_h where
  "umfpack_6 =
     \<lparr>UMFPACK_ORDERING_CHOLMOD = 0, UMFPACK_ORDERING_AMD = 1, UMFPACK_ORDERING_GIVEN = 2,
      UMFPACK_ORDERING_METIS = 3, UMFPACK_ORDERING_BEST = 4, UMFPACK_ORDERING_NONE = 5,
      UMFPACK_ORDERING_USER = 6, UMFPACK_ORDERING_METIS_GUARD = 7,
      UMFPACK_STRATEGY_AUTO = 0, UMFPACK_STRATEGY_UNSYMMETRIC = 1,
      UMFPACK_STRATEGY_OBSOLETE = 2, UMFPACK_STRATEGY_SYMMETRIC = 3,
      UMFPACK_DEFAULT_ORDERING = 1, UMFPACK_DEFAULT_STRATEGY = 0,
      UMFPACK_DEFAULT_DENSE_ROW = 0.2, UMFPACK_DEFAULT_BLOCK_SIZE = 32,
      UMFPACK_DEFAULT_FIXQ = 0,
      UMFPACK_DEFAULT_STRATEGY_THRESH_SYM = 0.3,
      UMFPACK_DEFAULT_STRATEGY_THRESH_NNZDIAG = 0.9,
      UMFPACK_DENSE_DEGREE_THRESHOLD =
        (\<lambda>alpha n. Int_of_double (max 16 (alpha * 16 * sqrt (real_of_int n))))\<rparr>"

text \<open>
  The macros of \<^verbatim>\<open>umf_internal.h\<close> for 4-byte \<^verbatim>\<open>Int\<close>, 8-byte \<^verbatim>\<open>Unit\<close>, \<^verbatim>\<open>Entry\<close>,
  \<^verbatim>\<open>Tuple\<close> and pointers, and a 28-byte \<^verbatim>\<open>Element\<close>: \<^verbatim>\<open>UNITS (type, n)\<close> is
  \<open>(sizeof (type) * n + sizeof (Unit) - 1) / sizeof (Unit)\<close>, \<^verbatim>\<open>DUNITS (type, n)\<close> is
  \<open>ceil (sizeof (type) * n / sizeof (Unit))\<close>, \<^verbatim>\<open>TUPLES (t)\<close> is \<open>MAX (4, t + 1)\<close>, and
  the size of an element is that of its header, its \<open>nr + nc\<close> indices and its
  \<open>nr * nc\<close> entries. The workspace size follows the comment of the source ("about
  2.2*nz + 9*n_col + 6*n_row"). A \<^verbatim>\<open>double\<close> outside the range of \<^verbatim>\<open>Int\<close> is converted
  to the least \<^verbatim>\<open>Int\<close>, as the x86 conversion instruction does. \<open>binary64\<close> rounds a
  real number to the nearest number with a significand of 53 bits, ties to even (the
  bounds on the exponent of a \<^verbatim>\<open>double\<close> are left out).
\<close>

definition binary64 :: "real \<Rightarrow> real" where
  "binary64 x =
     (if x = 0 then 0
      else
        (let e = \<lfloor>log 2 \<bar>x\<bar>\<rfloor>;
             ulp = 2 powr (real_of_int e - 52);
             q = x / ulp;
             f = \<lfloor>q\<rfloor>
         in ulp * real_of_int (if q - real_of_int f < 1 / 2 then f
                               else if q - real_of_int f > 1 / 2 then f + 1
                               else if even f then f else f + 1)))"

declare binary64_def [code del]

definition UNITS :: "int \<Rightarrow> int \<Rightarrow> int" where
  "UNITS size_of_type n = (size_of_type * n + 8 - 1) div 8"

definition DUNITS :: "real \<Rightarrow> real \<Rightarrow> real" where
  "DUNITS size_of_type n = ceil (size_of_type * n / 8)"

definition dClen_example :: "int \<Rightarrow> int \<Rightarrow> int \<Rightarrow> real" where
  "dClen_example nz n_row n_col =
     max (max (real_of_int (max (2 * nz) (4 * n_col) + 9 * n_col + 6 * n_row + nz div 5))
              (real_of_int (UMF_ANALYZE_CLEN nz n_row n_col (max n_row n_col))))
         (2.4 * real_of_int nz + 8 * real_of_int (min n_row n_col) + 1)"

definition umf_internal_di :: umf_internal_h where
  "umf_internal_di =
     \<lparr>MAXNB = 64,
      UNITS_Int = UNITS 4, UNITS_Entry = UNITS 8, UNITS_Int_ptr = UNITS 8,
      UNITS_Entry_ptr = UNITS 8, UNITS_Tuple = UNITS 8,
      DUNITS_Int = DUNITS 4, DUNITS_Entry = DUNITS 8, DUNITS_Int_ptr = DUNITS 8,
      DUNITS_Entry_ptr = DUNITS 8, DUNITS_Tuple = DUNITS 8,
      TUPLES = (\<lambda>t. max 4 (t + 1)),
      GET_ELEMENT_SIZE = (\<lambda>nr nc. UNITS 28 1 + UNITS 4 (nc + nr) + UNITS 8 (nc * nr)),
      DGET_ELEMENT_SIZE = (\<lambda>nr nc. DUNITS 28 1 + DUNITS 4 (nc + nr) + DUNITS 8 (nc * nr)),
      UMF_COLAMD_RECOMMENDED =
        (\<lambda>nz n_row n_col. max (2 * nz) (4 * n_col) + 9 * n_col + 6 * n_row + nz div 5),
      Clen_INT_OVERFLOW =
        (\<lambda>nz n_row n_col. \<not> (dClen_example nz n_row n_col * 4 * (1 + 1 / 10 ^ 8) \<le> 2147483647)),
      Int_MAX = 2147483647,
      Int_out_of_range = (\<lambda>x. - 2147483648),
      double_round = binary64\<rparr>"

text \<open>The entries of an array given as a list (0 beyond its end).\<close>

definition entries :: "int list \<Rightarrow> nat \<Rightarrow> int" where
  "entries xs i = (if i < length xs then xs ! i else 0)"

text \<open>
  Collaborators for which every allocation succeeds and every output is zero; the
  examples below override the outputs that matter.
\<close>

definition no_collaborators :: collaborators where
  "no_collaborators =
     \<lparr>malloc_ok = (\<lambda>_. True), malloc_contents = (\<lambda>_ _. 0),
      singletons_status = UMFPACK_OK,
      singletons_Cdeg = (\<lambda>_. 0), singletons_Cperm1 = (\<lambda>_. 0), singletons_Rdeg = (\<lambda>_. 0),
      singletons_Rperm1 = (\<lambda>_. 0), singletons_InvRperm1 = (\<lambda>_. 0),
      singletons_n1 = 0, singletons_n1c = 0, singletons_n1r = 0,
      singletons_nempty_col = 0, singletons_nempty_row = 0,
      singletons_is_sym = False, singletons_max_rdeg = 0,
      aat_nzaat = 0, aat_sym = 0, AMD_2_Pinv = (\<lambda>_. 0),
      ordering_ok = False, ordering_P = (\<lambda>_. 0), cholmod_ordering_used = 0,
      colamd_Qinv = (\<lambda>_. 0), colamd_dense_row = 0, colamd_dense_col = 0, colamd_nfr = 0,
      colamd_Front_npivcol = (\<lambda>_. 0), colamd_Front_nrows = (\<lambda>_. 0),
      colamd_Front_ncols = (\<lambda>_. 0), colamd_Front_parent = (\<lambda>_. 0),
      colamd_InFront = (\<lambda>_. 0),
      analyze_ok = False, analyze_nfr = 0, analyze_Cperm2 = (\<lambda>_. 0),
      analyze_Front_npivcol = (\<lambda>_. 0), analyze_Front_nrows = (\<lambda>_. 0),
      analyze_Front_ncols = (\<lambda>_. 0), analyze_Front_parent = (\<lambda>_. 0),
      workspace_Cperm_init = (\<lambda>_. 0), workspace_Rperm_init = (\<lambda>_. 0),
      workspace_Ci = (\<lambda>_. 0)\<rparr>"

text \<open>
  The 3-by-3 diagonal matrix (\<open>Ap = [0,1,2,3]\<close>, \<open>Ai = [0,1,2]\<close>): every column is a
  singleton, no front is left.
\<close>

definition diagonal3 :: collaborators where
  "diagonal3 = no_collaborators
     \<lparr>singletons_Cdeg := entries [1, 1, 1, -1], singletons_Cperm1 := entries [0, 1, 2],
      singletons_Rdeg := entries [1, 1, 1, -1], singletons_Rperm1 := entries [0, 1, 2],
      singletons_InvRperm1 := entries [0, 1, 2],
      singletons_n1 := 3, singletons_n1c := 3, singletons_is_sym := True,
      aat_sym := 1, analyze_ok := True\<rparr>"

text \<open>
  The full 2-by-2 matrix (\<open>Ap = [0,2,4]\<close>, \<open>Ai = [0,1,0,1]\<close>): no singleton; one front
  with two pivot columns.
\<close>

definition full2 :: collaborators where
  "full2 = no_collaborators
     \<lparr>singletons_Cdeg := entries [2, 2, -1], singletons_Cperm1 := entries [0, 1],
      singletons_Rdeg := entries [2, 2, -1], singletons_Rperm1 := entries [0, 1],
      singletons_InvRperm1 := entries [0, 1],
      singletons_is_sym := True, singletons_max_rdeg := 2,
      aat_nzaat := 2, aat_sym := 1, AMD_2_Pinv := entries [0, 1],
      colamd_Qinv := entries [0, 1], colamd_nfr := 1,
      colamd_Front_npivcol := entries [2], colamd_Front_nrows := entries [2],
      colamd_Front_ncols := entries [2], colamd_Front_parent := entries [-1],
      colamd_InFront := entries [0, 0],
      analyze_ok := True, analyze_nfr := 1, analyze_Cperm2 := entries [0, 1],
      analyze_Front_npivcol := entries [2], analyze_Front_nrows := entries [2],
      analyze_Front_ncols := entries [2], analyze_Front_parent := entries [-1]\<rparr>"

text \<open>A \<^verbatim>\<open>Control\<close> array in which every entry that is read holds NaN.\<close>

definition control_NaN :: control where
  "control_NaN =
     \<lparr>UMFPACK_DENSE_ROW = None, UMFPACK_BLOCK_SIZE = None, UMFPACK_STRATEGY = None,
      UMFPACK_FIXQ = None, UMFPACK_ORDERING = None, UMFPACK_STRATEGY_THRESH_SYM = None,
      UMFPACK_STRATEGY_THRESH_NNZDIAG = None\<rparr>"

text \<open>A \<^verbatim>\<open>Control\<close> array that asks for the symmetric strategy and leaves the rest at NaN.\<close>

definition control_symmetric :: control where
  "control_symmetric = control_NaN\<lparr>UMFPACK_STRATEGY := Some 3\<rparr>"

text \<open>
  The Symbolic objects of two calls for the full 2-by-2 matrix: with the values
  \<open>Ax = [1,1,1,1]\<close> and the symmetric strategy requested, and without \<^verbatim>\<open>Ax\<close> and with
  the default settings.
\<close>

definition full2_symmetric_Symbolic :: SymbolicType where
  "full2_symmetric_Symbolic =
     \<lparr>S_n_row = 2, S_n_col = 2, S_nz = 4, S_nb = 32, S_n1 = 0, S_n1r = 0,
           S_n1c = 0, S_nempty = 0, S_nempty_row = 0, S_nempty_col = 0,
           S_dense_row_threshold = 16, S_sym = 1, S_nzaat = 2, S_nzdiag = 2,
           S_strategy = 3, S_fixQ = True, S_prefer_diagonal = True,
           S_ordering = 1, S_Cperm_init = [0, 1, - 1],
           S_Rperm_init = [0, 1, - 1], S_Cdeg = [2, 2, - 1],
           S_Rdeg = [2, 2, - 1], S_nchains = 1, S_nfr = 1, S_esize = 0,
           S_Front_npivcol = [2, 0], S_Front_parent = [- 1, - 1],
           S_Front_1strow = [0, 2], S_Chain_start = [0, 1],
           S_Chain_maxrows = [3, 0], S_Chain_maxcols = [2, 0],
           S_Esize = None, S_Diagonal_map = Some [0, 1, 0], S_maxnrows = 3,
           S_maxncols = 2, S_num_mem_init_usage = 49,
           S_dnum_mem_init_usage = 49, S_num_mem_size_est = 4,
           S_num_mem_usage_est = 1236, S_lunz_bound = 4\<rparr>"

definition full2_unsymmetric_Symbolic :: SymbolicType where
  "full2_unsymmetric_Symbolic =
     \<lparr>S_n_row = 2, S_n_col = 2, S_nz = 4, S_nb = 32, S_n1 = 0, S_n1r = 0,
           S_n1c = 0, S_nempty = 0, S_nempty_row = 0, S_nempty_col = 0,
           S_dense_row_threshold = 16, S_sym = 1, S_nzaat = 2, S_nzdiag = 0,
           S_strategy = 1, S_fixQ = False, S_prefer_diagonal = False,
           S_ordering = 1, S_Cperm_init = [0, 1, - 1],
           S_Rperm_init = [0, 1, - 1], S_Cdeg = [2, 2, - 1],
           S_Rdeg = [2, 2, - 1], S_nchains = 1, S_nfr = 1, S_esize = 0,
           S_Front_npivcol = [2, 0], S_Front_parent = [- 1, - 1],
           S_Front_1strow = [0, 2], S_Chain_start = [0, 1],
           S_Chain_maxrows = [3, 0], S_Chain_maxcols = [2, 0],
           S_Esize = None, S_Diagonal_map = None, S_maxnrows = 3,
           S_maxncols = 2, S_num_mem_init_usage = 49,
           S_dnum_mem_init_usage = 49, S_num_mem_size_est = 4,
           S_num_mem_usage_est = 1236, S_lunz_bound = 4\<rparr>"

section \<open>Properties\<close>

subsection \<open>Loops and permutations\<close>

lemma fold_upt_invariant:
  assumes "a \<le> b" and "I a s"
    and "\<And>k s. a \<le> k \<Longrightarrow> k < b \<Longrightarrow> I k s \<Longrightarrow> I (Suc k) (f k s)"
  shows "I b (fold f [a..<b] s)"
proof -
  have "a \<le> k \<Longrightarrow> k \<le> b \<Longrightarrow> I k (fold f [a..<k] s)" for k
  proof (induction k)
    case 0
    then show ?case using assms(2) by simp
  next
    case (Suc k)
    show ?case
    proof (cases "a = Suc k")
      case True
      then show ?thesis using assms(2) by simp
    next
      case False
      with Suc.prems have ak: "a \<le> k" and kb: "k < b" by simp_all
      have "I k (fold f [a..<k] s)" using Suc.IH ak kb by simp
      then have "I (Suc k) (f k (fold f [a..<k] s))" using assms(3) ak kb by blast
      then show ?thesis using ak by simp
    qed
  qed
  then show ?thesis using assms(1) by blast
qed

lemma scatter_length:
  "length (fold (\<lambda>k C. C[pos k := val k]) ks C0) = length C0"
  by (induction ks arbitrary: C0) auto

lemma scatter_other:
  "p \<notin> pos ` set ks \<Longrightarrow> fold (\<lambda>k C. C[pos k := val k]) ks C0 ! p = C0 ! p"
  by (induction ks arbitrary: C0) auto

lemma scatter_nth:
  assumes "inj_on pos (set ks)" "distinct ks" "k \<in> set ks" "pos k < length C0"
  shows "fold (\<lambda>k C. C[pos k := val k]) ks C0 ! pos k = (val k :: 'a)"
  using assms
proof (induction ks arbitrary: C0)
  case Nil
  then show ?case by simp
next
  case (Cons j ks)
  show ?case
  proof (cases "k = j")
    case True
    have "pos j \<notin> pos ` set ks"
      using Cons.prems(1,2) by (auto simp: inj_on_def)
    then show ?thesis
      using True Cons.prems(4) by (simp add: scatter_other)
  next
    case False
    then show ?thesis
      using Cons by (auto simp: inj_on_def)
  qed
qed

lemma pigeonhole_permutation:
  assumes "nat n \<le> length P" and "{0..<n} \<subseteq> set (take (nat n) P)"
  shows "permutation_of P n"
proof -
  let ?xs = "take (nat n) P"
  have len: "length ?xs = nat n" using assms(1) by simp
  have "card {0..<n} \<le> card (set ?xs)"
    using assms(2) card_mono [OF finite_set] by blast
  moreover have "card (set ?xs) \<le> length ?xs" by (rule card_length)
  moreover have "card {0..<n} = nat n" by simp
  ultimately have c: "card (set ?xs) = length ?xs" and c2: "card (set ?xs) = card {0..<n}"
    using len by linarith+
  have "distinct ?xs" using c by (rule card_distinct)
  moreover have "set ?xs = {0..<n}"
    using assms(2) c2 by (metis List.finite_set card_subset_eq)
  ultimately show ?thesis using assms(1) by (simp add: permutation_of_def)
qed

lemma permutation_of_nth:
  assumes "permutation_of P n" "0 \<le> v" "v < n"
  shows "\<exists>k < nat n. P ! k = v"
proof -
  have "v \<in> set (take (nat n) P)" using assms by (simp add: permutation_of_def)
  then obtain k where "k < length (take (nat n) P)" "take (nat n) P ! k = v"
    by (auto simp: in_set_conv_nth)
  then show ?thesis by auto
qed

lemma permutation_of_range:
  assumes "permutation_of P n" "k < nat n"
  shows "0 \<le> P ! k \<and> P ! k < n"
proof -
  have len: "k < length (take (nat n) P)"
    using assms by (simp add: permutation_of_def)
  then have "take (nat n) P ! k \<in> set (take (nat n) P)" by (rule nth_mem)
  then have "take (nat n) P ! k \<in> {0..<n}"
    using assms(1) by (simp add: permutation_of_def)
  moreover have "take (nat n) P ! k = P ! k" using assms(2) by simp
  ultimately show ?thesis by simp
qed

lemma permutation_of_inj:
  assumes "permutation_of P n" "j < nat n" "k < nat n" "P ! j = P ! k"
  shows "j = k"
proof -
  have d: "distinct (take (nat n) P)" using assms(1) by (simp add: permutation_of_def)
  have e: "take (nat n) P ! j = take (nat n) P ! k" using assms by simp
  have lj: "j < length (take (nat n) P)" and lk: "k < length (take (nat n) P)"
    using assms by (simp_all add: permutation_of_def)
  show ?thesis using d e lj lk nth_eq_iff_index_eq by blast
qed

lemma permutation_ofI:
  assumes "nat n \<le> length P" and "\<And>v. 0 \<le> v \<Longrightarrow> v < n \<Longrightarrow> \<exists>k < nat n. P ! k = v"
  shows "permutation_of P n"
proof (rule pigeonhole_permutation [OF assms(1)])
  show "{0..<n} \<subseteq> set (take (nat n) P)"
  proof
    fix v assume "v \<in> {0..<n}"
    then obtain k where "k < nat n" "P ! k = v" using assms(2) by auto
    then show "v \<in> set (take (nat n) P)"
      using assms(1) by (auto simp: in_set_conv_nth intro!: exI [of _ k])
  qed
qed

subsection \<open>The control settings\<close>

lemma Int_of_double_of_int: "Int_of_double (real_of_int i) = i"
  by (simp add: Int_of_double_def)

lemma GET_CONTROL_other_ordering:
  "GET_CONTROL (Some (C\<lparr>UMFPACK_ORDERING := x\<rparr>)) UMFPACK_DENSE_ROW d = GET_CONTROL (Some C) UMFPACK_DENSE_ROW d"
  "GET_CONTROL (Some (C\<lparr>UMFPACK_ORDERING := x\<rparr>)) UMFPACK_BLOCK_SIZE d = GET_CONTROL (Some C) UMFPACK_BLOCK_SIZE d"
  "GET_CONTROL (Some (C\<lparr>UMFPACK_ORDERING := x\<rparr>)) UMFPACK_STRATEGY d = GET_CONTROL (Some C) UMFPACK_STRATEGY d"
  "GET_CONTROL (Some (C\<lparr>UMFPACK_ORDERING := x\<rparr>)) UMFPACK_FIXQ d = GET_CONTROL (Some C) UMFPACK_FIXQ d"
  "GET_CONTROL (Some (C\<lparr>UMFPACK_ORDERING := x\<rparr>)) UMFPACK_STRATEGY_THRESH_SYM d = GET_CONTROL (Some C) UMFPACK_STRATEGY_THRESH_SYM d"
  "GET_CONTROL (Some (C\<lparr>UMFPACK_ORDERING := x\<rparr>)) UMFPACK_STRATEGY_THRESH_NNZDIAG d = GET_CONTROL (Some C) UMFPACK_STRATEGY_THRESH_NNZDIAG d"
  by (simp_all add: GET_CONTROL_def)

lemma GET_CONTROL_other_strategy:
  "GET_CONTROL (Some (C\<lparr>UMFPACK_STRATEGY := x\<rparr>)) UMFPACK_DENSE_ROW d = GET_CONTROL (Some C) UMFPACK_DENSE_ROW d"
  "GET_CONTROL (Some (C\<lparr>UMFPACK_STRATEGY := x\<rparr>)) UMFPACK_BLOCK_SIZE d = GET_CONTROL (Some C) UMFPACK_BLOCK_SIZE d"
  "GET_CONTROL (Some (C\<lparr>UMFPACK_STRATEGY := x\<rparr>)) UMFPACK_ORDERING d = GET_CONTROL (Some C) UMFPACK_ORDERING d"
  "GET_CONTROL (Some (C\<lparr>UMFPACK_STRATEGY := x\<rparr>)) UMFPACK_FIXQ d = GET_CONTROL (Some C) UMFPACK_FIXQ d"
  "GET_CONTROL (Some (C\<lparr>UMFPACK_STRATEGY := x\<rparr>)) UMFPACK_STRATEGY_THRESH_SYM d = GET_CONTROL (Some C) UMFPACK_STRATEGY_THRESH_SYM d"
  "GET_CONTROL (Some (C\<lparr>UMFPACK_STRATEGY := x\<rparr>)) UMFPACK_STRATEGY_THRESH_NNZDIAG d = GET_CONTROL (Some C) UMFPACK_STRATEGY_THRESH_NNZDIAG d"
  by (simp_all add: GET_CONTROL_def)

lemma analysis_after_singletons_ordering_cong:
  "analysis_after_singletons K U E n_row n_col Ap Ai Ax Qn SWH (Some (C\<lparr>UMFPACK_ORDERING := x\<rparr>)) fP nz nb drow st ff oo live
 = analysis_after_singletons K U E n_row n_col Ap Ai Ax Qn SWH (Some C) fP nz nb drow st ff oo live"
  unfolding analysis_after_singletons_def select_strategy_def auto_strategy_def
  by (simp only: GET_CONTROL_other_ordering)

lemma analysis_after_singletons_strategy_cong:
  "analysis_after_singletons K U E n_row n_col Ap Ai Ax Qn SWH (Some (C\<lparr>UMFPACK_STRATEGY := x\<rparr>)) fP nz nb drow st ff oo live
 = analysis_after_singletons K U E n_row n_col Ap Ai Ax Qn SWH (Some C) fP nz nb drow st ff oo live"
  unfolding analysis_after_singletons_def select_strategy_def auto_strategy_def
  by (simp only: GET_CONTROL_other_strategy)

text \<open>
  A call depends on the ordering entry of \<^verbatim>\<open>Control\<close> only through the ordering option
  it resolves to, and on the strategy entry only through the requested strategy.
\<close>

lemma symbolic_analysis_ordering_cong:
  assumes "get_ordering_option K (Some (C\<lparr>UMFPACK_ORDERING := x\<rparr>)) (Quser = None) (\<not> uo)
         = get_ordering_option K (Some (C\<lparr>UMFPACK_ORDERING := y\<rparr>)) (Quser = None) (\<not> uo)"
  shows "symbolic_analysis K U E n_row n_col Ap Ai Ax Quser uo SH SWH (Some (C\<lparr>UMFPACK_ORDERING := x\<rparr>)) fP
       = symbolic_analysis K U E n_row n_col Ap Ai Ax Quser uo SH SWH (Some (C\<lparr>UMFPACK_ORDERING := y\<rparr>)) fP"
  unfolding symbolic_analysis_def get_nb_def get_strategy_def
  by (simp only: assms analysis_after_singletons_ordering_cong GET_CONTROL_other_ordering)

lemma symbolic_analysis_strategy_cong:
  assumes "get_strategy K (Some (C\<lparr>UMFPACK_STRATEGY := x\<rparr>)) n_row n_col (Quser = None)
         = get_strategy K (Some (C\<lparr>UMFPACK_STRATEGY := y\<rparr>)) n_row n_col (Quser = None)"
  shows "symbolic_analysis K U E n_row n_col Ap Ai Ax Quser uo SH SWH (Some (C\<lparr>UMFPACK_STRATEGY := x\<rparr>)) fP
       = symbolic_analysis K U E n_row n_col Ap Ai Ax Quser uo SH SWH (Some (C\<lparr>UMFPACK_STRATEGY := y\<rparr>)) fP"
  unfolding symbolic_analysis_def get_nb_def get_ordering_option_def
  by (simp only: assms analysis_after_singletons_strategy_cong GET_CONTROL_other_strategy)

lemma umfpack_6_ok: "umfpack_h_ok umfpack_6"
  by (simp add: umfpack_h_ok_def umfpack_6_def orderings_def strategies_def)

subsection \<open>Two calls for the full 2-by-2 matrix, stage by stage\<close>

lemma binary64_zero: "binary64 0 = 0"
  by (simp add: binary64_def)

lemma binary64_two: "binary64 2 = 2"
proof -
  have p: "(2::real) powr (- 51) = 1 / 2 ^ 51"
    by (simp add: powr_neg_numeral)
  show ?thesis
    by (simp add: binary64_def Let_def p)
qed

lemma binary64_positive:
  assumes "0 < x"
  shows "0 < binary64 x"
proof -
  define e where "e = \<lfloor>log 2 \<bar>x\<bar>\<rfloor>"
  define ulp where "ulp = 2 powr (real_of_int e - 52)"
  define q where "q = x / ulp"
  define f where "f = \<lfloor>q\<rfloor>"
  have ulp: "0 < ulp" by (simp add: ulp_def)
  have "real_of_int e \<le> log 2 x" using assms by (simp add: e_def)
  then have "2 powr (real_of_int e) \<le> 2 powr (log 2 x)" by simp
  then have ex: "2 powr (real_of_int e) \<le> x" using assms by simp
  have "ulp \<le> 2 powr (real_of_int e)" by (simp add: ulp_def)
  then have "ulp \<le> x" using ex by linarith
  then have "1 \<le> q" using ulp by (simp add: q_def)
  then have f: "1 \<le> f" by (simp add: f_def)
  have "binary64 x = ulp * real_of_int (if q - real_of_int f < 1 / 2 then f
                               else if q - real_of_int f > 1 / 2 then f + 1
                               else if even f then f else f + 1)"
    using assms by (simp add: binary64_def Let_def e_def ulp_def q_def f_def)
  also have "\<dots> > 0" using ulp f by (auto intro!: mult_pos_pos)
  finally show ?thesis .
qed



lemma sqrt_two_le: "sqrt 2 \<le> 2"
proof -
  have "sqrt 2 \<le> sqrt 4" by (simp only: real_sqrt_le_iff)
  then show ?thesis by simp
qed

lemma threshold_6_two: "UMFPACK_DENSE_DEGREE_THRESHOLD umfpack_6 (1 / 5) 2 = 16"
proof -
  have "1 / 5 * 16 * sqrt 2 \<le> 16" using sqrt_two_le by simp
  then have "max 16 (1 / 5 * 16 * sqrt 2) = 16" by simp
  then show ?thesis by (simp add: umfpack_6_def Int_of_double_def)
qed

lemma umfpack_6_values:
  "UMFPACK_ORDERING_CHOLMOD umfpack_6 = 0" "UMFPACK_ORDERING_AMD umfpack_6 = 1"
  "UMFPACK_ORDERING_GIVEN umfpack_6 = 2" "UMFPACK_ORDERING_METIS umfpack_6 = 3"
  "UMFPACK_ORDERING_BEST umfpack_6 = 4" "UMFPACK_ORDERING_NONE umfpack_6 = 5"
  "UMFPACK_ORDERING_USER umfpack_6 = 6" "UMFPACK_ORDERING_METIS_GUARD umfpack_6 = 7"
  "UMFPACK_STRATEGY_AUTO umfpack_6 = 0" "UMFPACK_STRATEGY_UNSYMMETRIC umfpack_6 = 1"
  "UMFPACK_STRATEGY_OBSOLETE umfpack_6 = 2" "UMFPACK_STRATEGY_SYMMETRIC umfpack_6 = 3"
  by (simp_all add: umfpack_6_def)

lemma full2_fields:
  "singletons_status full2 = UMFPACK_OK" "singletons_n1 full2 = 0"
  "singletons_n1r full2 = 0" "singletons_n1c full2 = 0"
  "singletons_nempty_col full2 = 0" "singletons_nempty_row full2 = 0"
  "singletons_is_sym full2" "singletons_max_rdeg full2 = 2"
  "aat_sym full2 = 1" "aat_nzaat full2 = 2" "analyze_ok full2" "analyze_nfr full2 = 1"
  "colamd_nfr full2 = 1" "colamd_dense_row full2 = 0" "colamd_dense_col full2 = 0"
  "malloc_ok full2 b"
  by (simp_all add: full2_def no_collaborators_def)

lemma full2_arrays:
  "array 3 (singletons_Cdeg full2) = [2, 2, - 1]" "array 3 (singletons_Rdeg full2) = [2, 2, - 1]"
  "array 2 (singletons_Cperm1 full2) = [0, 1]" "array 2 (singletons_Rperm1 full2) = [0, 1]"
  "array 2 (singletons_InvRperm1 full2) = [0, 1]"
  "array 2 (colamd_InFront full2) = [0, 0]"
  "array 38 (colamd_Qinv full2) = [0, 1, 0, 0, 0, 0, 0, 0, 0, 0, 0, 0, 0, 0, 0, 0, 0, 0, 0, 0, 0, 0, 0, 0, 0, 0, 0, 0, 0, 0, 0, 0, 0, 0, 0, 0, 0, 0]"
  "array 38 (workspace_Ci full2) = [0, 0, 0, 0, 0, 0, 0, 0, 0, 0, 0, 0, 0, 0, 0, 0, 0, 0, 0, 0, 0, 0, 0, 0, 0, 0, 0, 0, 0, 0, 0, 0, 0, 0, 0, 0, 0, 0]"
  "array 3 (workspace_Cperm_init full2) = [0, 0, 0]"
  "array 3 (workspace_Rperm_init full2) = [0, 0, 0]"
  "array 3 (AMD_2_Pinv full2) = [0, 1, 0]"
  by code_simp+

lemma full2_malloc_contents:
  "array 2 (malloc_contents full2 b) = [0, 0]"
  "array 3 (malloc_contents full2 b) = [0, 0, 0]"
  "array 4 (malloc_contents full2 b) = [0, 0, 0, 0]"
  by (simp_all add: full2_def no_collaborators_def array_def upt_rec)

lemma full2_Clen: "get_Clen umf_internal_di 4 2 2 = 38" "\<not> Clen_INT_OVERFLOW umf_internal_di 4 2 2"
  by code_simp+

lemma full2_prune:
  "prune_singletons 0 2 [0, 2, 4] [0, 1, 0, 1] None [0, 1] [0, 1] [0, 0, 0, 0] [0, 0, 0]
     = (0, [0, 1, 0, 1], [0, 2, 4])"
  "prune_singletons 0 2 [0, 2, 4] [0, 1, 0, 1] (Some [1, 1, 1, 1]) [0, 1] [0, 1] [0, 0, 0, 0] [0, 0, 0]
     = (2, [0, 1, 0, 1], [0, 2, 4])"
  by code_simp+

lemma default_settings:
  "get_nb umfpack_6 umf_internal_di None = 32"
  "GET_CONTROL None UMFPACK_DENSE_ROW (UMFPACK_DEFAULT_DENSE_ROW umfpack_6) = 1 / 5"
  "GET_CONTROL None UMFPACK_FIXQ (UMFPACK_DEFAULT_FIXQ umfpack_6) = 0"
  "get_strategy umfpack_6 None 2 2 True = 0"
  "get_ordering_option umfpack_6 None True True = 1"
  by (simp_all add: get_nb_def GET_CONTROL_def get_strategy_def get_ordering_option_def
        Int_of_double_machine_def Int_of_double_def umfpack_6_def umf_internal_di_def Let_def)

lemma full2_strategy_auto:
  "select_strategy umfpack_6 umf_internal_di full2 None 2 [0, 2, 4] [0, 1, 0, 1] None True 0 2
     [0, 1] [0, 1] [0, 0, 0, 0] [0, 0, 0] 0 = (1, 1, 2, 0, [0, 1, 0, 1], [0, 2, 4])"
proof -
  have p: "\<not> binary64 (9 / 5) \<le> 0"
    using binary64_positive [of "9 / 5"] by simp
  show ?thesis
    using p
    by (simp add: select_strategy_def auto_strategy_def Let_def full2_prune full2_fields
          GET_CONTROL_def umfpack_6_def umf_internal_di_def binary64_zero binary64_two)
qed

lemma full2_colamd_ordering:
  "find_ordering umfpack_6 full2 2 2 True (1 / 5) 1 1 0 0 0 0 2 2 [0, 1] [0, 0, 0] [0, 0, 0]
     [0, 0, 0] [0, 0] [0, 0, 0, 0, 0, 0, 0, 0, 0, 0, 0, 0, 0, 0, 0, 0, 0, 0, 0, 0, 0, 0, 0, 0, 0, 0, 0, 0, 0, 0, 0, 0, 0, 0, 0, 0, 0, 0] = Inr (1, [0, 1, 0], False)"
proof -
  have c: "combine_ordering 0 0 2 [0, 0, 0] [0, 1] [0, 1, 0, 0, 0, 0, 0, 0, 0, 0, 0, 0, 0, 0, 0, 0, 0, 0, 0, 0, 0, 0, 0, 0, 0, 0, 0, 0, 0, 0, 0, 0, 0, 0, 0, 0, 0, 0] = [0, 1, 0]"
    by code_simp
  show ?thesis
    by (simp add: find_ordering_def unsymmetric_ordering_def metis_guard_def Let_def
          umfpack_6_def full2_fields full2_arrays c)
qed

lemma full2_colamd_fronts:
  "symbolic_factorization full2 2 2 [0, 2, 4] [0, 1, 0, 1] False 0 0 0 [0, 1] [0, 1, - 1]
     [0, 1, 0, 1] [0, 2, 4] False = Inr (0, [0, 1, - 1], 1, [2, 0, 0], [2, 0], [2, 0], [- 1, 0])"
  by code_simp

lemma full2_stages:
  "count_chains 1 [- 1, 0] = 1"
  "assign_rows_colamd 2 0 0 1 [0, 1] [0, 0, 0, 0, 0, 0, 0, 0, 0, 0, 0, 0, 0, 0, 0, 0, 0, 0, 0, 0, 0, 0, 0, 0, 0, 0, 0, 0, 0, 0, 0, 0, 0, 0, 0, 0, 0, 0] [0, 0] [0, 0] = ([0, 0], [2, 0], [0, 0, 0, 0, 0, 0, 0, 0, 0, 0, 0, 0, 0, 0, 0, 0, 0, 0, 0, 0, 0, 0, 0, 0, 0, 0, 0, 0, 0, 0, 0, 0, 0, 0, 0, 0, 0, 0])"
  "copy_fronts 2 0 1 [2, 0, 0] [- 1, 0] [0, 0] [0, 0] = ([2, 0], [- 1, - 1])"
  "find_Rperm_init 2 0 1 [0, 1] [0, 0] [2, 0] [0, 0, 0, 0, 0, 0, 0, 0, 0, 0, 0, 0, 0, 0, 0, 0, 0, 0, 0, 0, 0, 0, 0, 0, 0, 0, 0, 0, 0, 0, 0, 0, 0, 0, 0, 0, 0, 0] [0, 0, 0] = ([0, 1, - 1], [0, 2], [2, 2, 0, 0, 0, 0, 0, 0, 0, 0, 0, 0, 0, 0, 0, 0, 0, 0, 0, 0, 0, 0, 0, 0, 0, 0, 0, 0, 0, 0, 0, 0, 0, 0, 0, 0, 0, 0])"
  "find_chains 1 [2, 0] [2, 0] [- 1, - 1] [0, 0] [0, 0] [0, 0]
     = \<lparr>c_nchains = 1, c_Chain_start = [0, 1], c_Chain_maxrows = [3, 0],
         c_Chain_maxcols = [2, 0], c_maxrows = 1, c_maxcols = 1, c_maxnrows = 3, c_maxncols = 2\<rparr>"
  "permute_degrees 2 [0, 1, - 1] [2, 2, - 1] [2, 2, 0, 0, 0, 0, 0, 0, 0, 0, 0, 0, 0, 0, 0, 0, 0, 0, 0, 0, 0, 0, 0, 0, 0, 0, 0, 0, 0, 0, 0, 0, 0, 0, 0, 0, 0, 0] = ([2, 2, - 1], [2, 2, 0, 0, 0, 0, 0, 0, 0, 0, 0, 0, 0, 0, 0, 0, 0, 0, 0, 0, 0, 0, 0, 0, 0, 0, 0, 0, 0, 0, 0, 0, 0, 0, 0, 0, 0, 0])"
  by code_simp+

lemma full2_simulation:
  "simulate_kernel_init umf_internal_di 2 2 0 0 0 2 16 [2, 2, - 1] [2, 2, - 1] None = \<lparr>head_usage = 1, tail_usage = 48, dhead_usage = 1, dtail_usage = 48, dlnz = 2, dunz = 2, dmax_usage = 0\<rparr>"
  "record_init_usage umf_internal_di 2 \<lparr>head_usage = 1, tail_usage = 48, dhead_usage = 1, dtail_usage = 48, dlnz = 2, dunz = 2, dmax_usage = 0\<rparr> = (49, 49, \<lparr>head_usage = 1, tail_usage = 42, dhead_usage = 1, dtail_usage = 42, dlnz = 2, dunz = 2, dmax_usage = 49\<rparr>)"
  "simulate_kernel umf_internal_di 32 1 1 [2, 0] [2, 0] [2, 0] [- 1, - 1] [0, 1] [3, 0] [2, 0]
     [2, 2, 0, 0, 0, 0, 0, 0, 0, 0, 0, 0, 0, 0, 0, 0, 0, 0, 0, 0, 0, 0, 0, 0, 0, 0, 0, 0, 0, 0, 0, 0, 0, 0, 0, 0, 0, 0] \<lparr>head_usage = 1, tail_usage = 42, dhead_usage = 1, dtail_usage = 42, dlnz = 2, dunz = 2, dmax_usage = 49\<rparr> = Some ([- 1, 2, 0, 0, 0, 0, 0, 0, 0, 0, 0, 0, 0, 0, 0, 0, 0, 0, 0, 0, 0, 0, 0, 0, 0, 0, 0, 0, 0, 0, 0, 0, 0, 0, 0, 0, 0, 0], \<lparr>head_usage = 1, tail_usage = 42, dhead_usage = 4, dtail_usage = 42, dlnz = 3, dunz = 3, dmax_usage = 1236\<rparr>)"
  by code_simp+

lemma full2_unsymmetric_call:
  "map_option r_SymbolicHandle
     (symbolic_analysis umfpack_6 umf_internal_di full2 2 2 (Some [0, 2, 4]) (Some [0, 1, 0, 1])
        None None False True False None False)
   = Some (Some full2_unsymmetric_Symbolic)"
  by (simp add: symbolic_analysis_def analysis_after_singletons_def finish_analysis_def Let_def
        UMF_malloc_def finalize_fixQ_def default_settings full2_fields full2_arrays
        full2_malloc_contents full2_Clen full2_strategy_auto full2_colamd_ordering
        full2_colamd_fronts full2_stages full2_simulation threshold_6_two
        full2_unsymmetric_Symbolic_def ceil_def EMPTY_def umfpack_6_values)

lemma symmetric_settings:
  "get_nb umfpack_6 umf_internal_di (Some control_symmetric) = 32"
  "GET_CONTROL (Some control_symmetric) UMFPACK_DENSE_ROW (UMFPACK_DEFAULT_DENSE_ROW umfpack_6)
     = 1 / 5"
  "GET_CONTROL (Some control_symmetric) UMFPACK_FIXQ (UMFPACK_DEFAULT_FIXQ umfpack_6) = 0"
  "get_strategy umfpack_6 (Some control_symmetric) 2 2 True = 3"
  "get_ordering_option umfpack_6 (Some control_symmetric) True True = 1"
  by (simp_all add: get_nb_def GET_CONTROL_def get_strategy_def get_ordering_option_def
        Int_of_double_machine_def Int_of_double_def umfpack_6_def umf_internal_di_def Let_def
        control_symmetric_def control_NaN_def)

lemma full2_strategy_symmetric:
  "select_strategy umfpack_6 umf_internal_di full2 (Some control_symmetric) 2 [0, 2, 4]
     [0, 1, 0, 1] (Some [1, 1, 1, 1]) True 0 2 [0, 1] [0, 1] [0, 0, 0, 0] [0, 0, 0] 3
   = (3, 1, 2, 2, [0, 1, 0, 1], [0, 2, 4])"
  by (simp add: select_strategy_def auto_strategy_def Let_def full2_prune full2_fields
        umfpack_6_values)

lemma full2_amd_ordering:
  "find_ordering umfpack_6 full2 2 2 True (1 / 5) 3 1 0 0 0 0 2 2 [0, 1] [0, 0, 0] [0, 0, 0]
     [0, 0, 0] [0, 0] [0, 0, 0, 0, 0, 0, 0, 0, 0, 0, 0, 0, 0, 0, 0, 0, 0, 0, 0, 0, 0, 0, 0, 0, 0, 0, 0, 0, 0, 0, 0, 0, 0, 0, 0, 0, 0, 0] = Inr (1, [0, 1, 0], True)"
proof -
  have c: "combine_ordering 0 0 2 [0, 0, 0] [0, 1] [0, 1, 0] = [0, 1, 0]"
    by code_simp
  show ?thesis
    by (simp add: find_ordering_def do_amd_def do_amd_1_def Let_def umfpack_6_values
          full2_fields full2_arrays c)
qed

lemma full2_analyze_fronts:
  "symbolic_factorization full2 2 2 [0, 2, 4] [0, 1, 0, 1] True 0 0 0 [0, 1] [0, 1, - 1]
     [0, 1, 0, 1] [0, 2, 4] True = Inr (0, [0, 1, - 1], 1, [2, 0, 0], [2, 0], [2, 0], [- 1, 0])"
  by code_simp

lemma full2_symmetric_stages:
  "assign_rows_analyze 2 0 1 [0, 2, 4] [0, 1, 0, 1] [0, 1] [0, 1, - 1] [2, 0, 0] [0, 0] [0, 0]
     = ([0, 0], [2, 0])"
  "find_Diagonal_map 2 [0, 1, - 1] [0, 1, - 1] [2, 2, 0, 0, 0, 0, 0, 0, 0, 0, 0, 0, 0, 0, 0, 0, 0, 0, 0, 0, 0, 0, 0, 0, 0, 0, 0, 0, 0, 0, 0, 0, 0, 0, 0, 0, 0, 0] [0, 0, 0] = Some ([0, 1, 0], [0, 1, 0, 0, 0, 0, 0, 0, 0, 0, 0, 0, 0, 0, 0, 0, 0, 0, 0, 0, 0, 0, 0, 0, 0, 0, 0, 0, 0, 0, 0, 0, 0, 0, 0, 0, 0, 0])"
  "permute_degrees 2 [0, 1, - 1] [2, 2, - 1] [0, 1, 0, 0, 0, 0, 0, 0, 0, 0, 0, 0, 0, 0, 0, 0, 0, 0, 0, 0, 0, 0, 0, 0, 0, 0, 0, 0, 0, 0, 0, 0, 0, 0, 0, 0, 0, 0] = ([2, 2, - 1], [2, 2, 0, 0, 0, 0, 0, 0, 0, 0, 0, 0, 0, 0, 0, 0, 0, 0, 0, 0, 0, 0, 0, 0, 0, 0, 0, 0, 0, 0, 0, 0, 0, 0, 0, 0, 0, 0])"
  by code_simp+

lemma full2_symmetric_call:
  "map_option r_SymbolicHandle
     (symbolic_analysis umfpack_6 umf_internal_di full2 2 2 (Some [0, 2, 4]) (Some [0, 1, 0, 1])
        (Some [1, 1, 1, 1]) None False True False (Some control_symmetric) False)
   = Some (Some full2_symmetric_Symbolic)"
  by (simp add: symbolic_analysis_def analysis_after_singletons_def finish_analysis_def Let_def
        UMF_malloc_def finalize_fixQ_def symmetric_settings full2_fields full2_arrays
        full2_malloc_contents full2_Clen full2_strategy_symmetric full2_amd_ordering
        full2_analyze_fronts full2_stages full2_symmetric_stages full2_simulation
        threshold_6_two full2_symmetric_Symbolic_def ceil_def EMPTY_def umfpack_6_values)

subsection \<open>Facts about \<^verbatim>\<open>UMFPACK_free_numeric\<close>\<close>

lemma fold_UMF_free_allocated:
  "allocated (fold UMF_free ps s) = allocated s - {b. Some b \<in> set ps}"
  by (induction ps arbitrary: s) (auto simp: UMF_free_def split: option.splits)

lemma fold_UMF_free_handle_at:
  "handle_at (fold UMF_free ps s) = handle_at s"
  by (induction ps arbitrary: s) (auto simp: UMF_free_def split: option.splits)

lemma fold_UMF_free_numeric_at:
  "numeric_at (fold UMF_free ps s) = numeric_at s"
  by (induction ps arbitrary: s) (auto simp: UMF_free_def split: option.splits)

lemma free_numeric_live:
  assumes "handle_at s h = Some a"
  shows "allocated (UMFPACK_free_numeric (Some h) s) = allocated s - numeric_blocks s a"
    and "handle_at (UMFPACK_free_numeric (Some h) s) = (handle_at s)(h := None)"
  using assms
  by (auto simp: UMFPACK_free_numeric_def Let_def UMF_free_def numeric_blocks_def
      fold_UMF_free_allocated fold_UMF_free_handle_at)

text \<open>
  Claim C9. \<^verbatim>\<open>UMFPACK_free_numeric\<close> is null-safe and idempotent: on a null handle, or a
  handle that holds \<^verbatim>\<open>NULL\<close>, it changes nothing; on a handle that holds a Numeric object
  it releases every block of the object (its members and the object itself), leaves every
  other block as it was, and stores \<^verbatim>\<open>NULL\<close> in the handle; and calling it a second time
  on the same handle changes nothing more.
\<close>

theorem free_numeric_null_safe_idempotent:
  "UMFPACK_free_numeric None s = s
   \<and> (handle_at s h = None \<longrightarrow> UMFPACK_free_numeric (Some h) s = s)
   \<and> (handle_at s h = Some a \<longrightarrow>
        allocated (UMFPACK_free_numeric (Some h) s) = allocated s - numeric_blocks s a
        \<and> handle_at (UMFPACK_free_numeric (Some h) s) h = None
        \<and> (\<forall>h'. h' \<noteq> h \<longrightarrow> handle_at (UMFPACK_free_numeric (Some h) s) h' = handle_at s h'))
   \<and> UMFPACK_free_numeric H (UMFPACK_free_numeric H s) = UMFPACK_free_numeric H s"
proof -
  have idem: "UMFPACK_free_numeric H (UMFPACK_free_numeric H s) = UMFPACK_free_numeric H s"
  proof (cases H)
    case None
    then show ?thesis by (simp add: UMFPACK_free_numeric_def)
  next
    case (Some k)
    show ?thesis
    proof (cases "handle_at s k")
      case None
      with Some show ?thesis by (simp add: UMFPACK_free_numeric_def)
    next
      case (Some a)
      have "handle_at (UMFPACK_free_numeric (Some k) s) k = None"
        using free_numeric_live(2) [OF Some] by simp
      then show ?thesis
        using \<open>H = Some k\<close> by (simp add: UMFPACK_free_numeric_def [of "Some k" "UMFPACK_free_numeric (Some k) s"])
    qed
  qed
  show ?thesis
    using idem free_numeric_live [of s h a]
    by (auto simp: UMFPACK_free_numeric_def)
qed

theorem free_numeric_null_safe_idempotent_witness:
  "handle_at store_example 0 = Some 1
   \<and> allocated (UMFPACK_free_numeric (Some 0) store_example) = {20}
   \<and> handle_at (UMFPACK_free_numeric (Some 0) store_example) 0 = None
   \<and> handle_at store_example 5 = None
   \<and> UMFPACK_free_numeric (Some 5) store_example = store_example
   \<and> UMFPACK_free_numeric (Some 0) (UMFPACK_free_numeric (Some 0) store_example)
       = UMFPACK_free_numeric (Some 0) store_example"
proof -
  have h: "handle_at store_example 0 = Some 1" and h5: "handle_at store_example 5 = None"
    by (simp_all add: store_example_def)
  have blocks: "allocated store_example - numeric_blocks store_example 1 = {20}"
    by (auto simp: store_example_def numeric_blocks_def numeric_members_def numeric_example_def)
  show ?thesis
    using free_numeric_null_safe_idempotent [of store_example 0 1 "Some 0"]
      free_numeric_null_safe_idempotent [of store_example 5 1 "Some 0"] h h5 blocks
    by simp
qed

subsection \<open>Out-of-range control settings\<close>

lemma get_ordering_option_Some:
  "get_ordering_option K (Some (C\<lparr>UMFPACK_ORDERING := Some v\<rparr>)) q u =
     (let oo = (if Int_of_double v < 0 \<or> Int_of_double v > UMFPACK_ORDERING_METIS_GUARD K
                then UMFPACK_DEFAULT_ORDERING K else Int_of_double v)
      in if q then (if oo = UMFPACK_ORDERING_GIVEN K \<or> (oo = UMFPACK_ORDERING_USER K \<and> u)
                    then UMFPACK_ORDERING_NONE K else oo)
         else UMFPACK_ORDERING_GIVEN K)"
  by (simp add: get_ordering_option_def GET_CONTROL_def Let_def)

lemma get_strategy_Some:
  "get_strategy K (Some (C\<lparr>UMFPACK_STRATEGY := Some v\<rparr>)) n_row n_col q =
     (let s = (if n_row \<noteq> n_col then UMFPACK_STRATEGY_UNSYMMETRIC K else Int_of_double v);
          s = (if s < UMFPACK_STRATEGY_AUTO K \<or> s > UMFPACK_STRATEGY_SYMMETRIC K
                  \<or> s = UMFPACK_STRATEGY_OBSOLETE K then UMFPACK_STRATEGY_AUTO K else s)
      in if \<not> q \<and> s \<noteq> UMFPACK_STRATEGY_SYMMETRIC K then UMFPACK_STRATEGY_UNSYMMETRIC K else s)"
  by (simp add: get_strategy_def GET_CONTROL_def Let_def)

lemma umfpack_h_ok_facts:
  assumes "umfpack_h_ok K"
  shows "0 \<le> UMFPACK_ORDERING_GIVEN K" "UMFPACK_ORDERING_GIVEN K \<le> UMFPACK_ORDERING_METIS_GUARD K"
    "0 \<le> UMFPACK_ORDERING_USER K" "UMFPACK_ORDERING_USER K \<le> UMFPACK_ORDERING_METIS_GUARD K"
    "0 \<le> UMFPACK_ORDERING_NONE K" "UMFPACK_ORDERING_NONE K \<le> UMFPACK_ORDERING_METIS_GUARD K"
    "0 \<le> UMFPACK_ORDERING_AMD K" "UMFPACK_ORDERING_AMD K \<le> UMFPACK_ORDERING_METIS_GUARD K"
    "UMFPACK_ORDERING_NONE K \<noteq> UMFPACK_ORDERING_GIVEN K"
    "UMFPACK_ORDERING_USER K \<noteq> UMFPACK_ORDERING_GIVEN K"
    "UMFPACK_ORDERING_AMD K \<noteq> UMFPACK_ORDERING_GIVEN K"
    "UMFPACK_ORDERING_AMD K \<noteq> UMFPACK_ORDERING_USER K"
    "UMFPACK_ORDERING_AMD K \<noteq> UMFPACK_ORDERING_METIS K"
    "UMFPACK_DEFAULT_ORDERING K = UMFPACK_ORDERING_AMD K"
    "UMFPACK_STRATEGY_AUTO K \<le> UMFPACK_STRATEGY_SYMMETRIC K"
    "UMFPACK_STRATEGY_AUTO K \<noteq> UMFPACK_STRATEGY_OBSOLETE K"
    "UMFPACK_STRATEGY_AUTO K \<noteq> UMFPACK_STRATEGY_SYMMETRIC K"
    "UMFPACK_STRATEGY_AUTO K \<noteq> UMFPACK_STRATEGY_UNSYMMETRIC K"
    "UMFPACK_STRATEGY_UNSYMMETRIC K \<noteq> UMFPACK_STRATEGY_SYMMETRIC K"
  using assms by (auto simp: umfpack_h_ok_def orderings_def strategies_def)

lemma symbolic_analysis_ordering_cong':
  assumes "q = (Quser = None)" "u = (\<not> uo)"
    and "get_ordering_option K (Some (C\<lparr>UMFPACK_ORDERING := x\<rparr>)) q u
         = get_ordering_option K (Some (C\<lparr>UMFPACK_ORDERING := y\<rparr>)) q u"
  shows "symbolic_analysis K U E n_row n_col Ap Ai Ax Quser uo SH SWH (Some (C\<lparr>UMFPACK_ORDERING := x\<rparr>)) fP
       = symbolic_analysis K U E n_row n_col Ap Ai Ax Quser uo SH SWH (Some (C\<lparr>UMFPACK_ORDERING := y\<rparr>)) fP"
  using assms(3) unfolding assms(1,2) by (rule symbolic_analysis_ordering_cong)

text \<open>
  Claim C10. Out-of-range configuration values never cause an error return. A call with
  an ordering option outside the recognized range \<open>0 .. UMFPACK_ORDERING_METIS_GUARD\<close>
  is the call with the default ordering (and without \<^verbatim>\<open>Quser\<close> the option resolves to the
  default); a call with the ordering "given" and no \<^verbatim>\<open>Quser\<close>, or the ordering "user" and no
  ordering function, is the call with the ordering "none" (and without \<^verbatim>\<open>Quser\<close> the option
  resolves to "none"); a call with a strategy outside the recognized range, or the
  obsolete one, is the call with the strategy auto (and for a square matrix without
  \<^verbatim>\<open>Quser\<close> the requested strategy is auto). A call that is the same as the call with the
  replaced value returns an error only where that call does.
\<close>

theorem out_of_range_settings_replaced:
  assumes "umfpack_h_ok K"
  shows
    "(Int_of_double v < 0 \<or> Int_of_double v > UMFPACK_ORDERING_METIS_GUARD K \<longrightarrow>
        symbolic_analysis K U E n_row n_col Ap Ai Ax Quser uo SH SWH
          (Some (C\<lparr>UMFPACK_ORDERING := Some v\<rparr>)) fP
        = symbolic_analysis K U E n_row n_col Ap Ai Ax Quser uo SH SWH
            (Some (C\<lparr>UMFPACK_ORDERING := Some (real_of_int (UMFPACK_DEFAULT_ORDERING K))\<rparr>)) fP
        \<and> get_ordering_option K (Some (C\<lparr>UMFPACK_ORDERING := Some v\<rparr>)) True (\<not> uo)
            = UMFPACK_DEFAULT_ORDERING K)
     \<and> symbolic_analysis K U E n_row n_col Ap Ai Ax None uo SH SWH
         (Some (C\<lparr>UMFPACK_ORDERING := Some (real_of_int (UMFPACK_ORDERING_GIVEN K))\<rparr>)) fP
       = symbolic_analysis K U E n_row n_col Ap Ai Ax None uo SH SWH
           (Some (C\<lparr>UMFPACK_ORDERING := Some (real_of_int (UMFPACK_ORDERING_NONE K))\<rparr>)) fP
     \<and> get_ordering_option K
         (Some (C\<lparr>UMFPACK_ORDERING := Some (real_of_int (UMFPACK_ORDERING_GIVEN K))\<rparr>)) True (\<not> uo)
       = UMFPACK_ORDERING_NONE K
     \<and> symbolic_analysis K U E n_row n_col Ap Ai Ax Quser False SH SWH
         (Some (C\<lparr>UMFPACK_ORDERING := Some (real_of_int (UMFPACK_ORDERING_USER K))\<rparr>)) fP
       = symbolic_analysis K U E n_row n_col Ap Ai Ax Quser False SH SWH
           (Some (C\<lparr>UMFPACK_ORDERING := Some (real_of_int (UMFPACK_ORDERING_NONE K))\<rparr>)) fP
     \<and> get_ordering_option K
         (Some (C\<lparr>UMFPACK_ORDERING := Some (real_of_int (UMFPACK_ORDERING_USER K))\<rparr>)) True True
       = UMFPACK_ORDERING_NONE K
     \<and> (Int_of_double w < UMFPACK_STRATEGY_AUTO K \<or> Int_of_double w > UMFPACK_STRATEGY_SYMMETRIC K
          \<or> Int_of_double w = UMFPACK_STRATEGY_OBSOLETE K \<longrightarrow>
        symbolic_analysis K U E n_row n_col Ap Ai Ax Quser uo SH SWH
          (Some (C\<lparr>UMFPACK_STRATEGY := Some w\<rparr>)) fP
        = symbolic_analysis K U E n_row n_col Ap Ai Ax Quser uo SH SWH
            (Some (C\<lparr>UMFPACK_STRATEGY := Some (real_of_int (UMFPACK_STRATEGY_AUTO K))\<rparr>)) fP
        \<and> (n_row = n_col \<longrightarrow>
             get_strategy K (Some (C\<lparr>UMFPACK_STRATEGY := Some w\<rparr>)) n_row n_col True
               = UMFPACK_STRATEGY_AUTO K))"
proof -
  note ok = umfpack_h_ok_facts [OF assms]
  have o1: "get_ordering_option K (Some (C\<lparr>UMFPACK_ORDERING := Some v\<rparr>)) q u
          = get_ordering_option K
              (Some (C\<lparr>UMFPACK_ORDERING := Some (real_of_int (UMFPACK_DEFAULT_ORDERING K))\<rparr>)) q u"
    if "Int_of_double v < 0 \<or> Int_of_double v > UMFPACK_ORDERING_METIS_GUARD K" for q u
    using that by (auto simp: get_ordering_option_Some Int_of_double_of_int Let_def)
  have o1': "get_ordering_option K (Some (C\<lparr>UMFPACK_ORDERING := Some v\<rparr>)) True u
          = UMFPACK_DEFAULT_ORDERING K"
    if "Int_of_double v < 0 \<or> Int_of_double v > UMFPACK_ORDERING_METIS_GUARD K" for u
    using that ok by (auto simp: get_ordering_option_Some Let_def)
  have o2: "get_ordering_option K
              (Some (C\<lparr>UMFPACK_ORDERING := Some (real_of_int (UMFPACK_ORDERING_GIVEN K))\<rparr>)) True u
          = UMFPACK_ORDERING_NONE K" for u
    using ok by (auto simp: get_ordering_option_Some Int_of_double_of_int Let_def)
  have o2': "get_ordering_option K
              (Some (C\<lparr>UMFPACK_ORDERING := Some (real_of_int (UMFPACK_ORDERING_NONE K))\<rparr>)) True u
          = UMFPACK_ORDERING_NONE K" for u
    using ok by (auto simp: get_ordering_option_Some Int_of_double_of_int Let_def)
  have o3: "get_ordering_option K
              (Some (C\<lparr>UMFPACK_ORDERING := Some (real_of_int (UMFPACK_ORDERING_USER K))\<rparr>)) q True
          = get_ordering_option K
              (Some (C\<lparr>UMFPACK_ORDERING := Some (real_of_int (UMFPACK_ORDERING_NONE K))\<rparr>)) q True" for q
    using ok by (auto simp: get_ordering_option_Some Int_of_double_of_int Let_def)
  have o3': "get_ordering_option K
              (Some (C\<lparr>UMFPACK_ORDERING := Some (real_of_int (UMFPACK_ORDERING_USER K))\<rparr>)) True True
          = UMFPACK_ORDERING_NONE K"
    using ok by (auto simp: get_ordering_option_Some Int_of_double_of_int Let_def)
  have s1: "get_strategy K (Some (C\<lparr>UMFPACK_STRATEGY := Some w\<rparr>)) n_row n_col q
          = get_strategy K
              (Some (C\<lparr>UMFPACK_STRATEGY := Some (real_of_int (UMFPACK_STRATEGY_AUTO K))\<rparr>)) n_row n_col q"
    if "Int_of_double w < UMFPACK_STRATEGY_AUTO K \<or> Int_of_double w > UMFPACK_STRATEGY_SYMMETRIC K
          \<or> Int_of_double w = UMFPACK_STRATEGY_OBSOLETE K" for q
    using that by (auto simp: get_strategy_Some Int_of_double_of_int Let_def)
  have s1': "get_strategy K (Some (C\<lparr>UMFPACK_STRATEGY := Some w\<rparr>)) n_row n_col True
          = UMFPACK_STRATEGY_AUTO K"
    if "Int_of_double w < UMFPACK_STRATEGY_AUTO K \<or> Int_of_double w > UMFPACK_STRATEGY_SYMMETRIC K
          \<or> Int_of_double w = UMFPACK_STRATEGY_OBSOLETE K" "n_row = n_col"
    using that by (auto simp: get_strategy_Some Let_def)
  show ?thesis
  proof (intro conjI impI)
    assume h: "Int_of_double v < 0 \<or> Int_of_double v > UMFPACK_ORDERING_METIS_GUARD K"
    show "symbolic_analysis K U E n_row n_col Ap Ai Ax Quser uo SH SWH
          (Some (C\<lparr>UMFPACK_ORDERING := Some v\<rparr>)) fP
        = symbolic_analysis K U E n_row n_col Ap Ai Ax Quser uo SH SWH
            (Some (C\<lparr>UMFPACK_ORDERING := Some (real_of_int (UMFPACK_DEFAULT_ORDERING K))\<rparr>)) fP"
      by (rule symbolic_analysis_ordering_cong' [OF refl refl o1 [OF h]])
    show "get_ordering_option K (Some (C\<lparr>UMFPACK_ORDERING := Some v\<rparr>)) True (\<not> uo)
            = UMFPACK_DEFAULT_ORDERING K"
      by (rule o1' [OF h])
  next
    have q: "True = (None = (None :: int list option))" by simp
    show "symbolic_analysis K U E n_row n_col Ap Ai Ax None uo SH SWH
         (Some (C\<lparr>UMFPACK_ORDERING := Some (real_of_int (UMFPACK_ORDERING_GIVEN K))\<rparr>)) fP
       = symbolic_analysis K U E n_row n_col Ap Ai Ax None uo SH SWH
           (Some (C\<lparr>UMFPACK_ORDERING := Some (real_of_int (UMFPACK_ORDERING_NONE K))\<rparr>)) fP"
      by (rule symbolic_analysis_ordering_cong' [OF q refl trans [OF o2 o2' [symmetric]]])
  next
    show "get_ordering_option K
         (Some (C\<lparr>UMFPACK_ORDERING := Some (real_of_int (UMFPACK_ORDERING_GIVEN K))\<rparr>)) True (\<not> uo)
       = UMFPACK_ORDERING_NONE K"
      by (rule o2)
  next
    have u: "True = (\<not> False)" by simp
    show "symbolic_analysis K U E n_row n_col Ap Ai Ax Quser False SH SWH
         (Some (C\<lparr>UMFPACK_ORDERING := Some (real_of_int (UMFPACK_ORDERING_USER K))\<rparr>)) fP
       = symbolic_analysis K U E n_row n_col Ap Ai Ax Quser False SH SWH
           (Some (C\<lparr>UMFPACK_ORDERING := Some (real_of_int (UMFPACK_ORDERING_NONE K))\<rparr>)) fP"
      by (rule symbolic_analysis_ordering_cong' [OF refl u o3])
  next
    show "get_ordering_option K
         (Some (C\<lparr>UMFPACK_ORDERING := Some (real_of_int (UMFPACK_ORDERING_USER K))\<rparr>)) True True
       = UMFPACK_ORDERING_NONE K"
      by (rule o3')
  next
    assume h: "Int_of_double w < UMFPACK_STRATEGY_AUTO K \<or> Int_of_double w > UMFPACK_STRATEGY_SYMMETRIC K
          \<or> Int_of_double w = UMFPACK_STRATEGY_OBSOLETE K"
    show "symbolic_analysis K U E n_row n_col Ap Ai Ax Quser uo SH SWH
          (Some (C\<lparr>UMFPACK_STRATEGY := Some w\<rparr>)) fP
        = symbolic_analysis K U E n_row n_col Ap Ai Ax Quser uo SH SWH
            (Some (C\<lparr>UMFPACK_STRATEGY := Some (real_of_int (UMFPACK_STRATEGY_AUTO K))\<rparr>)) fP"
      by (rule symbolic_analysis_strategy_cong [OF s1 [OF h]])
    assume "n_row = n_col"
    then show "get_strategy K (Some (C\<lparr>UMFPACK_STRATEGY := Some w\<rparr>)) n_row n_col True
               = UMFPACK_STRATEGY_AUTO K"
      by (rule s1' [OF h])
  qed
qed


theorem out_of_range_settings_replaced_witness:
  "umfpack_h_ok umfpack_6
   \<and> Int_of_double 99 > UMFPACK_ORDERING_METIS_GUARD umfpack_6
   \<and> symbolic_analysis umfpack_6 umf_internal_di diagonal3 3 3 (Some [0, 1, 2, 3])
         (Some [0, 1, 2]) None None False True False
         (Some (control_NaN\<lparr>UMFPACK_ORDERING := Some 99\<rparr>)) False
       = symbolic_analysis umfpack_6 umf_internal_di diagonal3 3 3 (Some [0, 1, 2, 3])
           (Some [0, 1, 2]) None None False True False
           (Some (control_NaN\<lparr>UMFPACK_ORDERING :=
                    Some (real_of_int (UMFPACK_DEFAULT_ORDERING umfpack_6))\<rparr>)) False
   \<and> get_ordering_option umfpack_6 (Some (control_NaN\<lparr>UMFPACK_ORDERING := Some 99\<rparr>))
         True (\<not> False) = UMFPACK_DEFAULT_ORDERING umfpack_6
   \<and> Int_of_double 17 > UMFPACK_STRATEGY_SYMMETRIC umfpack_6
   \<and> get_strategy umfpack_6 (Some (control_NaN\<lparr>UMFPACK_STRATEGY := Some 17\<rparr>)) 3 3 True
       = UMFPACK_STRATEGY_AUTO umfpack_6"
proof -
  have h1: "Int_of_double 99 > UMFPACK_ORDERING_METIS_GUARD umfpack_6"
    by (simp add: Int_of_double_def umfpack_6_def)
  have h2: "Int_of_double 17 > UMFPACK_STRATEGY_SYMMETRIC umfpack_6"
    by (simp add: Int_of_double_def umfpack_6_def)
  note T = out_of_range_settings_replaced [OF umfpack_6_ok, where v = 99 and w = 17
      and n_row = 3 and n_col = 3 and C = control_NaN and uo = False and Quser = None
      and U = umf_internal_di and E = diagonal3 and Ap = "Some [0, 1, 2, 3]"
      and Ai = "Some [0, 1, 2]" and Ax = None and SH = True and SWH = False and fP = False]
  note T1 = T [THEN conjunct1, THEN mp, OF disjI2 [OF h1]]
  note T2 = T [THEN conjunct2, THEN conjunct2, THEN conjunct2, THEN conjunct2, THEN conjunct2,
      THEN mp, OF disjI2 [OF disjI1 [OF h2]], THEN conjunct2, THEN mp, OF refl]
  show ?thesis
    by (intro conjI umfpack_6_ok h1 h2 T1 [THEN conjunct1] T1 [THEN conjunct2] T2)
qed

subsection \<open>The METIS_GUARD ordering\<close>

text \<open>
  Claim C5. Under the unsymmetric strategy with no \<^verbatim>\<open>Quser\<close> and the ordering metis-guard,
  with \<open>nrow2\<close> and \<open>ncol2\<close> the size of the pruned matrix, the ordering option is resolved
  to colamd (\<^verbatim>\<open>UMFPACK_ORDERING_AMD\<close>) if the pruned matrix is empty, else to colamd if
  \<open>max_rdeg\<close> exceeds the dense-degree threshold computed from the dense-row factor and
  \<open>ncol2\<close>, and to metis otherwise. In the first two cases the column ordering is the one
  of \<^verbatim>\<open>UMF_colamd\<close> and \<^verbatim>\<open>Symbolic->ordering\<close> is \<^verbatim>\<open>UMFPACK_ORDERING_AMD\<close>; in the last the
  step is the one for a request of metis, and \<^verbatim>\<open>Symbolic->ordering\<close> is the ordering that
  \<^verbatim>\<open>UMF_cholmod\<close> reports.
\<close>

theorem metis_guard_resolution:
  assumes "umfpack_h_ok K"
    and "nrow2 = n_row - n1 - nempty_row" and "ncol2 = n_col - n1 - nempty_col"
  shows
    "metis_guard K drow max_rdeg nrow2 ncol2 (UMFPACK_ORDERING_METIS_GUARD K) =
       (if nrow2 = 0 \<or> ncol2 = 0 then UMFPACK_ORDERING_AMD K
        else if max_rdeg > UMFPACK_DENSE_DEGREE_THRESHOLD K drow ncol2 then UMFPACK_ORDERING_AMD K
        else UMFPACK_ORDERING_METIS K)
     \<and> (nrow2 = 0 \<or> ncol2 = 0 \<or> max_rdeg > UMFPACK_DENSE_DEGREE_THRESHOLD K drow ncol2 \<longrightarrow>
          unsymmetric_ordering K E n_row n_col drow (UMFPACK_ORDERING_METIS_GUARD K) n1 nempty_row
            nempty_col max_rdeg Cperm1 Cperm_init Fr_npivcol Fr_nrows Ci
          = Inr (UMFPACK_ORDERING_AMD K,
                 combine_ordering n1 nempty_col n_col Cperm_init Cperm1
                   (array (int (length Ci)) (colamd_Qinv E)),
                 colamd_dense_row E > 0 \<or> colamd_dense_col E > 0))
     \<and> (nrow2 > 0 \<and> ncol2 > 0 \<and> max_rdeg \<le> UMFPACK_DENSE_DEGREE_THRESHOLD K drow ncol2 \<longrightarrow>
          unsymmetric_ordering K E n_row n_col drow (UMFPACK_ORDERING_METIS_GUARD K) n1 nempty_row
            nempty_col max_rdeg Cperm1 Cperm_init Fr_npivcol Fr_nrows Ci
          = unsymmetric_ordering K E n_row n_col drow (UMFPACK_ORDERING_METIS K) n1 nempty_row
              nempty_col max_rdeg Cperm1 Cperm_init Fr_npivcol Fr_nrows Ci
          \<and> (\<forall>r. unsymmetric_ordering K E n_row n_col drow (UMFPACK_ORDERING_METIS_GUARD K) n1
                    nempty_row nempty_col max_rdeg Cperm1 Cperm_init Fr_npivcol Fr_nrows Ci = Inr r
                 \<longrightarrow> fst r = cholmod_ordering_used E))"
proof -
  have d: "distinct (orderings K)" using assms(1) by (simp add: umfpack_h_ok_def)
  have ne: "UMFPACK_ORDERING_AMD K \<noteq> UMFPACK_ORDERING_USER K"
    "UMFPACK_ORDERING_AMD K \<noteq> UMFPACK_ORDERING_NONE K"
    "UMFPACK_ORDERING_AMD K \<noteq> UMFPACK_ORDERING_METIS K"
    "UMFPACK_ORDERING_AMD K \<noteq> UMFPACK_ORDERING_CHOLMOD K"
    "UMFPACK_ORDERING_AMD K \<noteq> UMFPACK_ORDERING_BEST K"
    "UMFPACK_ORDERING_METIS K \<noteq> UMFPACK_ORDERING_USER K"
    "UMFPACK_ORDERING_METIS K \<noteq> UMFPACK_ORDERING_METIS_GUARD K"
    using d by (auto simp: orderings_def)
  show ?thesis
    using ne assms(2,3)
    by (auto simp: metis_guard_def unsymmetric_ordering_def Let_def split: option.splits)
qed


lemma threshold_6_four: "UMFPACK_DENSE_DEGREE_THRESHOLD umfpack_6 0.2 4 = 16"
  by (simp add: umfpack_6_def Int_of_double_def)

theorem metis_guard_resolution_witness:
  "umfpack_h_ok umfpack_6
   \<and> metis_guard umfpack_6 0.2 20 4 4 (UMFPACK_ORDERING_METIS_GUARD umfpack_6)
       = UMFPACK_ORDERING_AMD umfpack_6
   \<and> metis_guard umfpack_6 0.2 3 4 4 (UMFPACK_ORDERING_METIS_GUARD umfpack_6)
       = UMFPACK_ORDERING_METIS umfpack_6
   \<and> metis_guard umfpack_6 0.2 3 0 4 (UMFPACK_ORDERING_METIS_GUARD umfpack_6)
       = UMFPACK_ORDERING_AMD umfpack_6"
proof -
  have a: "(4::int) = 4 - 0 - 0" and b: "(0::int) = 0 - 0 - 0" by simp_all
  show ?thesis
    using metis_guard_resolution [OF umfpack_6_ok a a, where drow = "0.2" and max_rdeg = 20, THEN conjunct1]
      metis_guard_resolution [OF umfpack_6_ok a a, where drow = "0.2" and max_rdeg = 3, THEN conjunct1]
      metis_guard_resolution [OF umfpack_6_ok b a, where drow = "0.2" and max_rdeg = 3, THEN conjunct1]
      umfpack_6_ok threshold_6_four
    by simp
qed

subsection \<open>The automatic strategy\<close>

text \<open>
  The count that \<^verbatim>\<open>prune_singletons\<close> returns: the numerically nonzero entries on the
  diagonal of the pruned matrix when \<^verbatim>\<open>Ax\<close> is given, and \<open>0\<close> when \<^verbatim>\<open>Ax\<close> is \<^verbatim>\<open>NULL\<close>
  (\<^verbatim>\<open>do_nzdiag\<close> is then false and nothing is counted).
\<close>

lemma nzdiag_numerical_Nil: "nzdiag_numerical Ax [] = 0"
  by (simp add: nzdiag_numerical_def split: option.splits)

lemma nzdiag_numerical_Cons:
  "nzdiag_numerical Ax (p # ps) =
     (case Ax of None \<Rightarrow> 0 | Some ax \<Rightarrow> if ax ! p \<noteq> 0 then 1 else 0) + nzdiag_numerical Ax ps"
  by (simp add: nzdiag_numerical_def split: option.splits)

lemma nzdiag_numerical_append:
  "nzdiag_numerical Ax (ps @ qs) = nzdiag_numerical Ax ps + nzdiag_numerical Ax qs"
  by (simp add: nzdiag_numerical_def split: option.splits)

lemma prune_entry_step:
  "prune_entry Ai Ax InvRperm1 n1 newcol p (pp, Si, nz) =
     (if InvRperm1 ! nat (Ai ! p) - n1 \<ge> 0
      then (pp + 1, Si[nat pp := InvRperm1 ! nat (Ai ! p) - n1],
            nz + (case Ax of None \<Rightarrow> 0
                  | Some ax \<Rightarrow> if InvRperm1 ! nat (Ai ! p) - n1 = newcol \<and> ax ! p \<noteq> 0
                               then 1 else 0))
      else (pp, Si, nz))"
  by (simp add: prune_entry_def Let_def split: option.splits)

lemma prune_entry_nzdiag:
  assumes "0 \<le> newcol"
  shows "snd (snd (fold (prune_entry Ai Ax InvRperm1 n1 newcol) ps (pp, Si, nz))) =
     nz + nzdiag_numerical Ax
            (filter (\<lambda>p. InvRperm1 ! nat (Ai ! p) - n1 = newcol) ps)"
proof (induction ps arbitrary: pp Si nz)
  case Nil
  then show ?case by (simp add: nzdiag_numerical_Nil)
next
  case (Cons p ps)
  show ?case
    using assms
    by (simp add: prune_entry_step Cons.IH nzdiag_numerical_Cons split: option.splits)
qed

lemma prune_column_nzdiag:
  assumes "n1 \<le> int k"
  shows "snd (snd (snd (prune_column n1 Ap Ai Ax Cperm1 InvRperm1 k (pp, Si, Sp, nz)))) =
     nz + nzdiag_numerical Ax
            (filter (\<lambda>p. InvRperm1 ! nat (Ai ! p) = int k)
               [nat (Ap ! nat (Cperm1 ! k)) ..< nat (Ap ! nat (Cperm1 ! k + 1))])"
proof -
  let ?ps = "[nat (Ap ! nat (Cperm1 ! k)) ..< nat (Ap ! nat (Cperm1 ! k + 1))]"
  have eq: "(InvRperm1 ! nat (Ai ! p) - n1 = int k - n1) = (InvRperm1 ! nat (Ai ! p) = int k)" for p
    by auto
  obtain a b c where f: "fold (prune_entry Ai Ax InvRperm1 n1 (int k - n1)) ?ps
      (pp, Si, nz) = (a, b, c)"
    by (metis prod_cases3)
  have "c = nz + nzdiag_numerical Ax (filter (\<lambda>p. InvRperm1 ! nat (Ai ! p) - n1 = int k - n1) ?ps)"
    using prune_entry_nzdiag [of "int k - n1" Ai Ax InvRperm1 n1 ?ps pp Si nz]
      f assms by simp
  then have c: "c = nz + nzdiag_numerical Ax (filter (\<lambda>p. InvRperm1 ! nat (Ai ! p) = int k) ?ps)"
    by (simp only: eq)
  show ?thesis
    using f c by (simp add: prune_column_def Let_def)
qed

lemma prune_columns_nzdiag:
  assumes "\<forall>k \<in> set ks. n1 \<le> int k"
  shows "snd (snd (snd (fold (prune_column n1 Ap Ai Ax Cperm1 InvRperm1) ks (pp, Si, Sp, nz)))) =
     nz + nzdiag_numerical Ax
            (concat (map (\<lambda>k. filter (\<lambda>p. InvRperm1 ! nat (Ai ! p) = int k)
               [nat (Ap ! nat (Cperm1 ! k)) ..< nat (Ap ! nat (Cperm1 ! k + 1))]) ks))"
  using assms
proof (induction ks arbitrary: pp Si Sp nz)
  case Nil
  then show ?case by (simp add: nzdiag_numerical_Nil)
next
  case (Cons k ks)
  obtain a b c d where s: "prune_column n1 Ap Ai Ax Cperm1 InvRperm1 k (pp, Si, Sp, nz) = (a, b, c, d)"
    by (metis prod_cases4)
  have d: "d = nz + nzdiag_numerical Ax
            (filter (\<lambda>p. InvRperm1 ! nat (Ai ! p) = int k)
               [nat (Ap ! nat (Cperm1 ! k)) ..< nat (Ap ! nat (Cperm1 ! k + 1))])"
    using prune_column_nzdiag [of n1 k Ap Ai Ax Cperm1 InvRperm1 pp Si Sp nz] s Cons.prems by simp
  have ks: "\<forall>k \<in> set ks. n1 \<le> int k" using Cons.prems by simp
  have "snd (snd (snd (fold (prune_column n1 Ap Ai Ax Cperm1 InvRperm1) (k # ks) (pp, Si, Sp, nz)))) =
        snd (snd (snd (fold (prune_column n1 Ap Ai Ax Cperm1 InvRperm1) ks (a, b, c, d))))"
    by (simp only: fold.simps o_apply s)
  also have "\<dots> = d + nzdiag_numerical Ax
            (concat (map (\<lambda>k. filter (\<lambda>p. InvRperm1 ! nat (Ai ! p) = int k)
               [nat (Ap ! nat (Cperm1 ! k)) ..< nat (Ap ! nat (Cperm1 ! k + 1))]) ks))"
    by (rule Cons.IH [OF ks])
  also have "\<dots> = nz + nzdiag_numerical Ax
            (concat (map (\<lambda>k. filter (\<lambda>p. InvRperm1 ! nat (Ai ! p) = int k)
               [nat (Ap ! nat (Cperm1 ! k)) ..< nat (Ap ! nat (Cperm1 ! k + 1))]) (k # ks)))"
    by (simp only: d list.map concat.simps nzdiag_numerical_append add.assoc)
  finally show ?case .
qed

lemma prune_singletons_nzdiag:
  "fst (prune_singletons n1 n_col Ap Ai Ax Cperm1 InvRperm1 Si Sp) =
     nzdiag_numerical Ax (diagonal_entries n1 n_col Ap Ai Cperm1 InvRperm1)"
proof -
  have k: "\<forall>k \<in> set [nat n1 ..< nat n_col]. n1 \<le> int k" by auto
  obtain a b c d where s: "fold (prune_column n1 Ap Ai Ax Cperm1 InvRperm1) [nat n1 ..< nat n_col]
              (0, Si, Sp, 0) = (a, b, c, d)"
    by (metis prod_cases4)
  have "d = nzdiag_numerical Ax (diagonal_entries n1 n_col Ap Ai Cperm1 InvRperm1)"
    using prune_columns_nzdiag [OF k, of Ap Ai Ax Cperm1 InvRperm1 0 Si Sp 0] s
    by (simp add: diagonal_entries_def)
  then show ?thesis using s by (simp add: prune_singletons_def)
qed

lemma full2_diagonal_entries: "diagonal_entries 0 2 [0, 2, 4] [0, 1, 0, 1] [0, 1] [0, 1] = [0, 3]"
  by code_simp

lemma full2_nzdiag_structural: "nzdiag_structural None [0, 3] = 2"
  by code_simp

text \<open>
  Claim C2, at an input where the code departs from it. The call is for the full
  2-by-2 matrix (\<open>Ap = [0,2,4]\<close>, \<open>Ai = [0,1,0,1]\<close>) without \<^verbatim>\<open>Ax\<close> and with the default
  settings. The matrix is square, it has no singletons (\<open>n1 = 0\<close>, \<open>nempty = 0\<close>, so
  \<open>n2 = 2\<close>), \<open>is_sym\<close> holds and the strategy requested is auto. The symmetry \<open>1\<close> is at
  least the threshold \<open>0.3\<close>, and both diagonal entries of the pruned matrix are
  structurally nonzero, so that the count of the claim, \<open>2\<close>, is at least \<open>0.9 * 2\<close>: the
  claim gives the symmetric strategy. The call succeeds with \<^verbatim>\<open>Symbolic->nzdiag = 0\<close> and
  the unsymmetric strategy.
\<close>

theorem structural_diagonal_not_counted:
  "singletons_is_sym full2
   \<and> get_strategy umfpack_6 None 2 2 True = UMFPACK_STRATEGY_AUTO umfpack_6
   \<and> aat_sym full2 \<ge> UMFPACK_DEFAULT_STRATEGY_THRESH_SYM umfpack_6
   \<and> real_of_int (nzdiag_structural None (diagonal_entries 0 2 [0, 2, 4] [0, 1, 0, 1] [0, 1] [0, 1]))
       \<ge> UMFPACK_DEFAULT_STRATEGY_THRESH_NNZDIAG umfpack_6
            * real_of_int (max 2 2 - singletons_n1 full2
                             - min (singletons_nempty_col full2) (singletons_nempty_row full2))
   \<and> map_option r_SymbolicHandle
         (symbolic_analysis umfpack_6 umf_internal_di full2 2 2 (Some [0, 2, 4])
            (Some [0, 1, 0, 1]) None None False True False None False)
       = Some (Some full2_unsymmetric_Symbolic)
   \<and> S_nzdiag full2_unsymmetric_Symbolic = 0
   \<and> S_strategy full2_unsymmetric_Symbolic = UMFPACK_STRATEGY_UNSYMMETRIC umfpack_6
   \<and> UMFPACK_STRATEGY_UNSYMMETRIC umfpack_6 \<noteq> UMFPACK_STRATEGY_SYMMETRIC umfpack_6"
  by (simp add: full2_unsymmetric_call full2_diagonal_entries full2_nzdiag_structural
        full2_fields default_settings umfpack_6_values full2_unsymmetric_Symbolic_def)
     (simp add: umfpack_6_def)

subsection \<open>An invalid \<^verbatim>\<open>Quser\<close>\<close>

text \<open>
  For \<open>r = n\<close> the test of \<^verbatim>\<open>UMF_is_permutation\<close> is the one for a permutation of
  \<open>0..n-1\<close>.
\<close>

lemma UMF_is_permutation_iff: "UMF_is_permutation P n n = permutation_of P n"
proof
  assume p: "UMF_is_permutation P n n"
  let ?xs = "take (nat n) P"
  have len: "nat n \<le> length P" and d: "distinct ?xs"
    and r: "\<forall>i \<in> set ?xs. 0 \<le> i \<and> i < n"
    using p by (simp_all add: UMF_is_permutation_def list_all_iff)
  have sub: "set ?xs \<subseteq> {0..<n}" using r by auto
  have "card (set ?xs) = length ?xs" using d by (rule distinct_card)
  also have "\<dots> = nat n" using len by simp
  also have "\<dots> = card {0..<n}" by simp
  finally have "set ?xs = {0..<n}" using sub by (simp add: card_subset_eq)
  then show "permutation_of P n" using len d by (simp add: permutation_of_def)
next
  assume "permutation_of P n"
  then show "UMF_is_permutation P n n"
    by (auto simp: permutation_of_def UMF_is_permutation_def list_all_iff)
qed

lemma invalid_Quser_example:
  "\<not> permutation_of [0, 0, 1, 2] 4"
  "\<not> Clen_INT_OVERFLOW umf_internal_di 4 4 4"
  by code_simp+

text \<open>
  Claim C4, as the code has it. When \<^verbatim>\<open>Quser\<close> is given and is not a permutation of
  \<open>0..n_col-1\<close>, and the call gets as far as the test of \<^verbatim>\<open>Quser\<close> (the handle for the
  result is not \<^verbatim>\<open>NULL\<close>, \<open>n_row\<close> and \<open>n_col\<close> are positive, \<open>Ap [n_col]\<close> is not negative,
  the size of the workspace does not overflow and the Symbolic object and its first four
  arrays are allocated), the call returns \<^verbatim>\<open>UMFPACK_ERROR_invalid_permutation\<close>,
  \<^verbatim>\<open>Info [UMFPACK_STATUS]\<close> is the same status, \<^verbatim>\<open>*SymbolicHandle\<close> is \<^verbatim>\<open>NULL\<close>, and nothing
  that the call has allocated stays allocated.
\<close>

theorem invalid_Quser_rejected:
  assumes "\<not> permutation_of Quser n_col"
    and "SymbolicHandle" and "0 < n_row" and "0 < n_col" and "0 \<le> Ap ! nat n_col"
    and "\<not> Clen_INT_OVERFLOW U (Ap ! nat n_col) n_row n_col"
    and "list_all (malloc_ok E) [B_Symbolic, B_Cperm_init, B_Rperm_init, B_Cdeg, B_Rdeg]"
  shows "symbolic_analysis K U E n_row n_col (Some Ap) (Some Ai) Ax (Some Quser) user_ordering
           SymbolicHandle SW_Handle Control for_Paru
         = Some \<lparr>r_status = UMFPACK_ERROR_invalid_permutation,
                  r_Info_STATUS = UMFPACK_ERROR_invalid_permutation,
                  r_SymbolicHandle = None, r_allocated = {}\<rparr>"
proof -
  have q: "\<not> UMF_is_permutation Quser n_col n_col"
    using assms(1) by (simp add: UMF_is_permutation_iff)
  show ?thesis
    using assms(2-7) q
    by (auto simp: symbolic_analysis_def Let_def UMF_malloc_def failure_def error_def
          UMFPACK_free_symbolic_def UMFPACK_paru_free_sw_def Symbolic_blocks_def)
qed

theorem invalid_Quser_rejected_witness:
  "\<not> permutation_of [0, 0, 1, 2] 4
   \<and> symbolic_analysis umfpack_6 umf_internal_di no_collaborators 4 4 (Some [0, 1, 2, 3, 4])
        (Some [0, 1, 2, 3]) None (Some [0, 0, 1, 2]) False True False None False
      = Some \<lparr>r_status = UMFPACK_ERROR_invalid_permutation,
               r_Info_STATUS = UMFPACK_ERROR_invalid_permutation,
               r_SymbolicHandle = None, r_allocated = {}\<rparr>"
  using invalid_Quser_rejected [of "[0, 0, 1, 2]" 4 True 4 "[0, 1, 2, 3, 4]" umf_internal_di
          no_collaborators umfpack_6 "[0, 1, 2, 3]" None False False None False]
    invalid_Quser_example
  by (simp add: no_collaborators_def)

text \<open>
  Without these conditions the claim fails: the tests of the other arguments come first.
  With \<open>Quser = [0,0,1,2]\<close> and \<open>n_row = 0\<close> the call returns
  \<^verbatim>\<open>UMFPACK_ERROR_n_nonpositive\<close>.
\<close>

theorem invalid_Quser_other_error_counterexample:
  "\<not> permutation_of [0, 0, 1, 2] 4
   \<and> symbolic_analysis umfpack_6 umf_internal_di no_collaborators 0 4 (Some [0, 0, 0, 0, 0])
        (Some []) None (Some [0, 0, 1, 2]) False True False None False
      = Some \<lparr>r_status = UMFPACK_ERROR_n_nonpositive,
               r_Info_STATUS = UMFPACK_ERROR_n_nonpositive,
               r_SymbolicHandle = None, r_allocated = {}\<rparr>
   \<and> UMFPACK_ERROR_n_nonpositive \<noteq> UMFPACK_ERROR_invalid_permutation"
  using invalid_Quser_example(1)
  by (simp add: symbolic_analysis_def Let_def failure_def)

end
